theory Spec2Isabelle
  imports Complex_Main "HOL-Library.AList" "HOL-Library.Sublist"
begin

section \<open>Python values\<close>

text \<open>
  A Python \<open>str\<close> is a sequence of Unicode code points and \<open>len\<close> counts code points,
  so a string is modelled as a list of code points. \<open>u\<close> turns an ASCII literal into
  such a list.
\<close>

type_synonym pystr = "nat list"

definition u :: "string \<Rightarrow> pystr" where
  "u s = map of_char s"

text \<open>
  A float that the code only stores and hands on is named by the value of its decimal
  literal (\<open>0.9\<close> is \<open>9 / 10\<close>). The one place that computes with floats is the
  retriever, which takes the binary subtraction of the interpreter as an input.
\<close>

datatype pyfloat = Finite rat | NaN | PosInf | NegInf

datatype pyval =
    PNone
  | PBool bool
  | PInt int
  | PFloat pyfloat
  | PStr pystr
  | PList "pyval list"
  | PDict "(pystr \<times> pyval) list"

text \<open>
  A \<open>dict\<close> keeps insertion order; it is an association list, read with \<open>map_of\<close>
  and written with \<open>AList.update\<close> (replace in place, else append).
\<close>

type_synonym pydict = "(pystr \<times> pyval) list"

text \<open>
  \<open>JSONDecodeError\<close> is a subclass of \<open>ValueError\<close>; the one handler that names it
  (\<open>except json.JSONDecodeError\<close>) catches it and not a plain \<open>ValueError\<close>, so the
  two are kept apart. \<open>Raised\<close> is any other exception, with its message.
\<close>

datatype exn =
    KeyError pystr
  | TypeError
  | AttributeError
  | ValueError
  | JSONDecodeError
  | Raised pystr

fun truthy :: "pyval \<Rightarrow> bool" where
  "truthy PNone = False"
| "truthy (PBool b) = b"
| "truthy (PInt i) = (i \<noteq> 0)"
| "truthy (PFloat f) = (f \<noteq> Finite 0)"
| "truthy (PStr s) = (s \<noteq> [])"
| "truthy (PList xs) = (xs \<noteq> [])"
| "truthy (PDict d) = (d \<noteq> [])"

definition dict_get :: "pydict \<Rightarrow> pystr \<Rightarrow> pyval" where
  \<comment> \<open>\<open>d.get(k)\<close>: \<open>None\<close> when the key is absent\<close>
  "dict_get d k = (case map_of d k of None \<Rightarrow> PNone | Some v \<Rightarrow> v)"

definition dict_item :: "pydict \<Rightarrow> pystr \<Rightarrow> exn + pyval" where
  \<comment> \<open>\<open>d[k]\<close>: raises \<open>KeyError\<close> when the key is absent\<close>
  "dict_item d k = (case map_of d k of None \<Rightarrow> Inl (KeyError k) | Some v \<Rightarrow> Inr v)"

section \<open>Strings\<close>

definition is_space :: "nat \<Rightarrow> bool" where
  \<comment> \<open>the code points for which \<open>str.isspace\<close> holds; \<open>str.strip()\<close> and the regular
      expression class \<open>\s\<close> on \<open>str\<close> patterns both use this set\<close>
  "is_space c \<longleftrightarrow>
     (9 \<le> c \<and> c \<le> 13) \<or> (28 \<le> c \<and> c \<le> 32) \<or> c = 133 \<or> c = 160 \<or> c = 5760 \<or>
     (8192 \<le> c \<and> c \<le> 8202) \<or> c = 8232 \<or> c = 8233 \<or> c = 8239 \<or> c = 8287 \<or> c = 12288"

definition strip :: "pystr \<Rightarrow> pystr" where
  "strip s = rev (dropWhile is_space (rev (dropWhile is_space s)))"

definition decimal_zeros :: "nat list" where
  \<comment> \<open>the code point of digit zero in every block of Unicode decimal digits (category
      Nd, Unicode 14); each block holds the digits 0 to 9 in order\<close>
  "decimal_zeros =
     [48, 1632, 1776, 1984, 2406, 2534, 2662, 2790, 2918, 3046, 3174, 3302, 3430, 3558,
      3664, 3792, 3872, 4160, 4240, 6112, 6160, 6470, 6608, 6784, 6800, 6992, 7088, 7232,
      7248, 42528, 43216, 43264, 43472, 43504, 43600, 44016, 65296, 66720, 68912, 69734,
      69872, 69942, 70096, 70384, 70736, 70864, 71248, 71360, 71472, 71904, 72016, 72784,
      73040, 73120, 92768, 92864, 93008, 120782, 120792, 120802, 120812, 120822, 123200,
      123632, 125264, 130032]"

definition digit_value :: "nat \<Rightarrow> nat option" where
  "digit_value c =
     (case find (\<lambda>z. z \<le> c \<and> c < z + 10) decimal_zeros of
        None \<Rightarrow> None
      | Some z \<Rightarrow> Some (c - z))"

definition is_digit :: "nat \<Rightarrow> bool" where
  \<comment> \<open>the regular expression class \<open>\d\<close> on \<open>str\<close> patterns\<close>
  "is_digit c \<longleftrightarrow> digit_value c \<noteq> None"

definition max_str_digits :: nat where
  \<comment> \<open>\<open>sys.int_info.default_max_str_digits\<close>: the most digits that \<open>int()\<close> converts
      from a decimal string in CPython 3.11 (and in the security releases of 3.7 to 3.10)
      unless the interpreter is configured otherwise\<close>
  "max_str_digits = 4300"

definition int_of_digits :: "pystr \<Rightarrow> exn + nat" where
  \<comment> \<open>\<open>int(s)\<close> on a non-empty string of decimal digits: \<open>ValueError\<close> when the string
      has more digits than the limit (leading zeros count)\<close>
  "int_of_digits s =
     (if max_str_digits < length s then Inl ValueError
      else Inr (foldl (\<lambda>a c. 10 * a + (case digit_value c of None \<Rightarrow> 0 | Some d \<Rightarrow> d)) 0 s))"

fun str_of_nat :: "nat \<Rightarrow> pystr" where
  \<comment> \<open>\<open>str(n)\<close>, as an f-string renders a non-negative \<open>int\<close>\<close>
  "str_of_nat n = (if n < 10 then [48 + n] else str_of_nat (n div 10) @ [48 + n mod 10])"

declare str_of_nat.simps [simp del]

fun split_char :: "nat \<Rightarrow> pystr \<Rightarrow> pystr list" where
  \<comment> \<open>\<open>s.split(sep)\<close> for a one-character separator\<close>
  "split_char sep [] = [[]]"
| "split_char sep (c # cs) =
     (if c = sep then [] # split_char sep cs
      else (case split_char sep cs of
              [] \<Rightarrow> [[c]]
            | p # ps \<Rightarrow> (c # p) # ps))"

fun re_split_runs :: "(nat \<Rightarrow> bool) \<Rightarrow> pystr \<Rightarrow> pystr list" where
  \<comment> \<open>\<open>re.split('[...]+', s)\<close>: the pieces between the maximal runs of characters of
      the class, an empty piece before a leading and after a trailing run\<close>
  "re_split_runs P [] = [[]]"
| "re_split_runs P (c # cs) =
     (if P c then
        (case cs of
           [] \<Rightarrow> [] # re_split_runs P cs
         | d # _ \<Rightarrow> if P d then re_split_runs P cs else [] # re_split_runs P cs)
      else (case re_split_runs P cs of
              [] \<Rightarrow> [[c]]
            | p # ps \<Rightarrow> (c # p) # ps))"

fun str_find :: "pystr \<Rightarrow> pystr \<Rightarrow> nat option" where
  \<comment> \<open>the least index at which the needle occurs in the text, if it occurs\<close>
  "str_find needle [] = (if needle = [] then Some 0 else None)"
| "str_find needle (c # cs) =
     (if prefix needle (c # cs) then Some 0 else map_option Suc (str_find needle cs))"

definition str_contains :: "pystr \<Rightarrow> pystr \<Rightarrow> bool" where
  \<comment> \<open>\<open>needle in text\<close>\<close>
  "str_contains needle txt \<longleftrightarrow> str_find needle txt \<noteq> None"

section \<open>The language-model gateway\<close>

text \<open>
  Every prompt is a fixed natural-language template around the arguments of the call, so a
  request is represented by the kind of prompt and the arguments interpolated into it.
  The gateway (\<open>LLMAdapter.call_with_retry\<close>, not part of the verified code) is any
  function from the requests issued so far and the current request to a response
  dictionary; the list of requests issued is the state that the calls thread through.
\<close>

record snippet =
  snippet_text :: pystr
  source :: pystr
  similarity :: rat
  rank :: nat

datatype request =
    ClaimExtractionPrompt pystr
  | IntentClassificationPrompt pystr
  | ComparisonEntitiesPrompt pystr
  | VerificationPrompt pystr "snippet list" pystr pystr

type_synonym gateway = "request list \<Rightarrow> request \<Rightarrow> pydict"

definition call_with_retry :: "gateway \<Rightarrow> request list \<Rightarrow> request \<Rightarrow> pydict \<times> request list" where
  "call_with_retry gw calls p = (gw calls p, calls @ [p])"

text \<open>
  Modelled from the spec: the two response shapes of the gateway, whose code is not among
  the sources: \<open>{text, usage:{prompt_tokens, completion_tokens, total_tokens}, model,
  finish_reason}\<close> on success and \<open>{error: true, text: diagnostic}\<close> on failure.
\<close>

definition ok_response :: "pystr \<Rightarrow> nat \<Rightarrow> nat \<Rightarrow> pystr \<Rightarrow> pystr \<Rightarrow> pydict" where
  "ok_response txt prompt_tokens completion_tokens model finish_reason =
     [(u ''text'', PStr txt),
      (u ''usage'', PDict [(u ''prompt_tokens'', PInt (int prompt_tokens)),
                           (u ''completion_tokens'', PInt (int completion_tokens)),
                           (u ''total_tokens'', PInt (int (prompt_tokens + completion_tokens)))]),
      (u ''model'', PStr model),
      (u ''finish_reason'', PStr finish_reason)]"

definition error_response :: "pystr \<Rightarrow> pydict" where
  "error_response diagnostic = [(u ''error'', PBool True), (u ''text'', PStr diagnostic)]"

definition documented_response :: "pydict \<Rightarrow> bool" where
  "documented_response r \<longleftrightarrow>
     (case map_of r (u ''text'') of
        Some (PStr _) \<Rightarrow> True
      | _ \<Rightarrow> False) \<and>
     (case map_of r (u ''error'') of
        None \<Rightarrow> True
      | Some (PBool _) \<Rightarrow> True
      | _ \<Rightarrow> False)"

section \<open>ClaimExtractor\<close>

text \<open>
  A claim is a dictionary with the keys \<open>text\<close>, \<open>confidence\<close>, \<open>atomic\<close> and, in two
  of the three places that build one, \<open>id\<close> and \<open>original_position\<close>; an absent key is
  \<open>None\<close>.
\<close>

record claim =
  claim_id :: "pystr option"
  claim_text :: pystr
  confidence :: rat
  atomic :: bool
  original_position :: "nat option"

definition whole_text_claim :: "pystr \<Rightarrow> claim" where
  \<comment> \<open>\<open>{"text": text, "confidence": 1.0, "atomic": True}\<close>\<close>
  "whole_text_claim txt =
     \<lparr>claim_id = None, claim_text = txt, confidence = 1, atomic = True,
      original_position = None\<rparr>"

definition is_terminal :: "nat \<Rightarrow> bool" where
  \<comment> \<open>the class \<open>[.!?\<dots>]\<close> of \<open>_fallback_extraction\<close>: full stop, exclamation mark and
      question mark, each in its ASCII and its CJK form (U+3002, U+FF01, U+FF1F)\<close>
  "is_terminal c \<longleftrightarrow> c = 46 \<or> c = 33 \<or> c = 63 \<or> c = 12290 \<or> c = 65281 \<or> c = 65311"

fun fallback_loop :: "nat \<Rightarrow> pystr list \<Rightarrow> claim list" where
  \<comment> \<open>the loop \<open>for i, sentence in enumerate(sentences)\<close>, from index \<open>i\<close> on\<close>
  "fallback_loop i [] = []"
| "fallback_loop i (s # ss) =
     (let sentence = strip s in
      (if length sentence > 10
       then [\<lparr>claim_id = Some (u ''claim_'' @ str_of_nat (i + 1)), claim_text = sentence,
              confidence = 7 / 10, atomic = False, original_position = Some i\<rparr>]
       else []) @ fallback_loop (i + 1) ss)"

definition fallback_extraction :: "pystr \<Rightarrow> claim list" where
  "fallback_extraction txt =
     (let sentences = re_split_runs is_terminal txt;
          claims = fallback_loop 0 sentences
      in if claims \<noteq> [] then claims else [whole_text_claim txt])"

definition match_ws_then_any :: "pystr \<Rightarrow> pystr option" where
  \<comment> \<open>the tail \<open>\s*(.+)\<close> of the claim-line pattern, matched at the start of \<open>r\<close>; the
      result is group 2. \<open>\s*\<close> takes all leading whitespace and \<open>.+\<close> the characters up
      to the next newline; when only whitespace is left, \<open>\s*\<close> backtracks to the last
      character that is not a newline, which \<open>.+\<close> then matches alone.\<close>
  "match_ws_then_any r =
     (let r' = dropWhile is_space r in
      if r' \<noteq> [] then Some (takeWhile (\<lambda>c. c \<noteq> 10) r')
      else (case rev (filter (\<lambda>c. c \<noteq> 10) r) of
              [] \<Rightarrow> None
            | c # _ \<Rightarrow> Some [c]))"

definition match_claim_line :: "pystr \<Rightarrow> (pystr \<times> pystr) option" where
  \<comment> \<open>\<open>re.match(r'\[CLAIM_(\d+)\]:\s*(.+)', line)\<close>: groups 1 and 2\<close>
  "match_claim_line line =
     (if prefix (u ''[CLAIM_'') line then
        (let r = drop 7 line;
             digits = takeWhile is_digit r;
             r1 = dropWhile is_digit r
         in if digits \<noteq> [] \<and> prefix (u '']:'') r1
            then map_option (Pair digits) (match_ws_then_any (drop 2 r1))
            else None)
      else None)"

definition estimate_position :: "pystr \<Rightarrow> pystr \<Rightarrow> nat" where
  "estimate_position ctext original_text =
     (case str_find ctext original_text of None \<Rightarrow> 0 | Some i \<Rightarrow> i)"

fun parse_lines :: "pystr \<Rightarrow> pystr list \<Rightarrow> exn + claim list" where
  \<comment> \<open>the loop \<open>for line in lines\<close> of \<open>_parse_claims_response\<close>: the claims appended
      from the given line on, or the exception of the first line at which \<open>int\<close> raises\<close>
  "parse_lines original_text [] = Inr []"
| "parse_lines original_text (l # ls) =
     (let line = strip l in
      if line = [] then parse_lines original_text ls
      else (case match_claim_line line of
              None \<Rightarrow> parse_lines original_text ls
            | Some (g1, g2) \<Rightarrow>
                (case int_of_digits g1 of
                   Inl e \<Rightarrow> Inl e
                 | Inr claim_num \<Rightarrow>
                     (let ctext = strip g2 in
                      case parse_lines original_text ls of
                        Inl e \<Rightarrow> Inl e
                      | Inr claims \<Rightarrow>
                          Inr (\<lparr>claim_id = Some (u ''claim_'' @ str_of_nat claim_num),
                                claim_text = ctext, confidence = 9 / 10, atomic = True,
                                original_position = Some (estimate_position ctext original_text)\<rparr>
                               # claims)))))"

definition parse_claims_response :: "pystr \<Rightarrow> pystr \<Rightarrow> exn + claim list" where
  "parse_claims_response response original_text =
     (case parse_lines original_text (split_char 10 (strip response)) of
        Inl e \<Rightarrow> Inl e
      | Inr claims \<Rightarrow> Inr (if claims = [] then fallback_extraction original_text else claims))"

definition extract_claims ::
  "gateway \<Rightarrow> request list \<Rightarrow> pystr \<Rightarrow> (exn + claim list) \<times> request list" where
  "extract_claims gw calls txt =
     (if txt = [] \<or> length (strip txt) < 10 then (Inr [whole_text_claim txt], calls)
      else
        (let (response, calls') = call_with_retry gw calls (ClaimExtractionPrompt txt) in
         if truthy (dict_get response (u ''error''))
         then (Inr (fallback_extraction txt), calls')
         else (case dict_item response (u ''text'') of
                 Inl e \<Rightarrow> (Inl e, calls')
               | Inr (PStr t) \<Rightarrow> (parse_claims_response t txt, calls')
               | Inr _ \<Rightarrow> (Inl AttributeError, calls'))))"

definition failing_gateway :: gateway where
  \<comment> \<open>a gateway whose every call fails, for concrete runs\<close>
  "failing_gateway calls p = error_response (u ''all retries failed'')"

definition fixed_gateway :: "pydict \<Rightarrow> gateway" where
  \<comment> \<open>a gateway that answers every call with the same response, for concrete runs\<close>
  "fixed_gateway r calls p = r"

section \<open>IntentClassifier\<close>

text \<open>
  The four built-in intent labels are Chinese words; they are written as code points:
  \<open>factual_query\<close> is U+4E8B U+5B9E U+67E5 U+8BE2 (fact query), \<open>comparison_query\<close>
  is U+6BD4 U+8F83 U+67E5 U+8BE2, \<open>method_query\<close> is U+65B9 U+6CD5 U+67E5 U+8BE2 and
  \<open>opinion_query\<close> is U+89C2 U+70B9 U+67E5 U+8BE2.
\<close>

definition factual_query :: pystr where
  "factual_query = [20107, 23454, 26597, 35810]"

definition comparison_query :: pystr where
  "comparison_query = [27604, 36739, 26597, 35810]"

definition method_query :: pystr where
  "method_query = [26041, 27861, 26597, 35810]"

definition opinion_query :: pystr where
  "opinion_query = [35266, 28857, 26597, 35810]"

text \<open>
  The configuration dictionary of the classifier, read with \<open>config.get\<close>: each key may
  be absent.
\<close>

record intent_config =
  cfg_supported_intents :: "pystr list option"
  cfg_default_intent :: "pystr option"

text \<open>
  A template is a string with one placeholder \<open>{}\<close>; it is kept as the text before and
  the text after the placeholder, and \<open>template.format(x)\<close> puts \<open>x\<close> between them.
\<close>

type_synonym template = "pystr \<times> pystr"

definition format_template :: "template \<Rightarrow> pystr \<Rightarrow> pystr" where
  "format_template t x = fst t @ x @ snd t"

record intent_classifier =
  supported_intents :: "pystr list"
  default_intent :: pystr
  intent_templates :: "(pystr \<times> template) list"

definition builtin_templates :: "(pystr \<times> template) list" where
  "builtin_templates =
     [(factual_query, ([25214, 21040, 20851, 20110, 91], [93, 30340, 20855, 20307, 20107, 23454])),
      (comparison_query, ([25214, 21040, 91], [93, 30340, 23545, 27604, 20449, 24687])),
      (method_query, ([25214, 21040, 22914, 20309, 91], [93, 30340, 26041, 27861, 25110, 27493, 39588])),
      (opinion_query, ([25214, 21040, 20851, 20110, 91],
                       [93, 30340, 19981, 21516, 35266, 28857, 25110, 35780, 20215]))]"

definition init_intent_classifier :: "intent_config \<Rightarrow> intent_classifier" where
  \<comment> \<open>\<open>IntentClassifier.__init__\<close>\<close>
  "init_intent_classifier config =
     \<lparr>supported_intents = (case cfg_supported_intents config of None \<Rightarrow> [] | Some l \<Rightarrow> l),
      default_intent = (case cfg_default_intent config of None \<Rightarrow> factual_query | Some d \<Rightarrow> d),
      intent_templates = builtin_templates\<rparr>"

definition match_ws_then_word :: "pystr \<Rightarrow> pystr option" where
  \<comment> \<open>\<open>\s*(\S+)\<close> matched at the start of \<open>r\<close>: group 1\<close>
  "match_ws_then_word r =
     (let r' = dropWhile is_space r in
      if r' \<noteq> [] then Some (takeWhile (\<lambda>c. \<not> is_space c) r') else None)"

definition match_label_value :: "pystr \<Rightarrow> pystr option" where
  \<comment> \<open>\<open>[\<dots>:]?\s*(\S+)\<close> matched at the start of \<open>r\<close>, the class holding the fullwidth
      colon U+FF1A and the ASCII colon: the colon is taken when the rest then matches;
      otherwise the colon itself starts the word\<close>
  "match_label_value r =
     (case r of
        [] \<Rightarrow> None
      | c # cs \<Rightarrow>
          if c = 65306 \<or> c = 58 then
            (case match_ws_then_word cs of
               Some g \<Rightarrow> Some g
             | None \<Rightarrow> match_ws_then_word r)
          else match_ws_then_word r)"

fun re_search_label :: "pystr \<Rightarrow> pystr \<Rightarrow> pystr option" where
  \<comment> \<open>\<open>re.search(kw + '[\<dots>:]?\s*(\S+)', s)\<close> for a non-empty keyword: group 1 of the
      leftmost match\<close>
  "re_search_label kw [] = None"
| "re_search_label kw (c # cs) =
     (if prefix kw (c # cs) then
        (case match_label_value (drop (length kw) (c # cs)) of
           Some g \<Rightarrow> Some g
         | None \<Rightarrow> re_search_label kw cs)
      else re_search_label kw cs)"

definition re_match_query_word :: "pystr \<Rightarrow> pystr option" where
  \<comment> \<open>\<open>re.search('^(\S+QQ)', s)\<close> where \<open>QQ\<close> is the word U+67E5 U+8BE2 (query): the
      longest prefix of the leading run of non-space characters that ends in the word
      and has at least one character before it\<close>
  "re_match_query_word s =
     (let run = takeWhile (\<lambda>c. \<not> is_space c) s;
          ks = filter (\<lambda>k. take 2 (drop k run) = [26597, 35810]) [1..<length run]
      in if ks = [] then None else Some (take (last ks + 2) run))"

definition intent_patterns :: "(pystr \<Rightarrow> pystr option) list" where
  \<comment> \<open>the three patterns of \<open>_parse_intent_response\<close>; the keywords are U+610F U+56FE
      (intent) and U+7C7B U+578B (type)\<close>
  "intent_patterns =
     [re_search_label [24847, 22270], re_match_query_word, re_search_label [31867, 22411]]"

fun try_patterns :: "pystr list \<Rightarrow> pystr \<Rightarrow> (pystr \<Rightarrow> pystr option) list \<Rightarrow> pystr option" where
  \<comment> \<open>the loop \<open>for pattern in patterns\<close>\<close>
  "try_patterns supported cleaned [] = None"
| "try_patterns supported cleaned (p # ps) =
     (case p cleaned of
        Some candidate \<Rightarrow>
          if candidate \<in> set supported then Some candidate
          else try_patterns supported cleaned ps
      | None \<Rightarrow> try_patterns supported cleaned ps)"

definition parse_intent_response :: "intent_classifier \<Rightarrow> pystr \<Rightarrow> pystr" where
  "parse_intent_response C response =
     (let cleaned = strip response in
      case find (\<lambda>intent. str_contains intent cleaned) (supported_intents C) of
        Some intent \<Rightarrow> intent
      | None \<Rightarrow>
          (case try_patterns (supported_intents C) cleaned intent_patterns of
             Some candidate \<Rightarrow> candidate
           | None \<Rightarrow> default_intent C))"

definition classify_intent ::
  "intent_classifier \<Rightarrow> gateway \<Rightarrow> request list \<Rightarrow> pystr \<Rightarrow> (exn + pystr) \<times> request list" where
  "classify_intent C gw calls query =
     (let (response, calls') = call_with_retry gw calls (IntentClassificationPrompt query) in
      if truthy (dict_get response (u ''error'')) then (Inr (default_intent C), calls')
      else (case dict_item response (u ''text'') of
              Inl e \<Rightarrow> (Inl e, calls')
            | Inr (PStr t) \<Rightarrow>
                (let intent = parse_intent_response C t in
                 (Inr (if intent \<in> set (supported_intents C) then intent else default_intent C),
                  calls'))
            | Inr _ \<Rightarrow> (Inl AttributeError, calls')))"

definition extract_comparison_entities ::
  "gateway \<Rightarrow> request list \<Rightarrow> pystr \<Rightarrow> (exn + pystr list) \<times> request list" where
  "extract_comparison_entities gw calls query =
     (let (response, calls') = call_with_retry gw calls (ComparisonEntitiesPrompt query) in
      if truthy (dict_get response (u ''error'')) then (Inr [query], calls')
      else (case dict_item response (u ''text'') of
              Inl e \<Rightarrow> (Inl e, calls')
            | Inr (PStr t) \<Rightarrow>
                (Inr (filter (\<lambda>e. e \<noteq> []) (map strip (split_char 44 t))), calls')
            | Inr _ \<Rightarrow> (Inl AttributeError, calls')))"

fun str_join :: "pystr \<Rightarrow> pystr list \<Rightarrow> pystr" where
  "str_join sep [] = []"
| "str_join sep [x] = x"
| "str_join sep (x # y # ys) = x @ sep @ str_join sep (y # ys)"

definition template_for :: "intent_classifier \<Rightarrow> pystr \<Rightarrow> exn + template" where
  \<comment> \<open>\<open>self.intent_templates[intent]\<close>\<close>
  "template_for C intent =
     (case map_of (intent_templates C) intent of
        None \<Rightarrow> Inl (KeyError intent)
      | Some t \<Rightarrow> Inr t)"

definition generate_retrieval_prompt ::
  "intent_classifier \<Rightarrow> gateway \<Rightarrow> request list \<Rightarrow> pystr \<Rightarrow> pystr \<Rightarrow>
   (exn + pystr) \<times> request list" where
  \<comment> \<open>the separator of the two entities is U+548C (and)\<close>
  "generate_retrieval_prompt C gw calls query intent =
     (if intent = comparison_query then
        (case extract_comparison_entities gw calls query of
           (Inl e, calls') \<Rightarrow> (Inl e, calls')
         | (Inr compared_entities, calls') \<Rightarrow>
             if length compared_entities \<ge> 2 then
               (case template_for C intent of
                  Inl e \<Rightarrow> (Inl e, calls')
                | Inr t \<Rightarrow>
                    (Inr (format_template t (str_join [21644] (take 2 compared_entities))), calls'))
             else
               (case template_for C intent of
                  Inl e \<Rightarrow> (Inl e, calls')
                | Inr t \<Rightarrow> (Inr (format_template t query), calls')))
      else
        (case template_for C intent of
           Inl e \<Rightarrow> (Inl e, calls)
         | Inr t \<Rightarrow> (Inr (format_template t query), calls)))"

section \<open>VectorRetriever\<close>

text \<open>
  The embedding model and the vector collection are outside the verified code: a
  collection is any function from the query text and \<open>n_results\<close> to the rows it returns
  (document, the \<open>source\<close> entry of the metadata if there is one, distance), or to the
  exception it raises.

  Distances, similarities and the threshold are binary floats, each represented by the
  rational number that is its exact value, so that \<open>>=\<close> on floats is \<open>\<ge>\<close> on their
  values. Subtraction on floats rounds its result: it is not the subtraction of the
  rationals but an input \<open>float_sub\<close>, the subtraction of the interpreter.
\<close>

type_synonym collection = "pystr \<Rightarrow> nat \<Rightarrow> exn + (pystr \<times> pystr option \<times> rat) list"

fun search_loop ::
  "(rat \<Rightarrow> rat \<Rightarrow> rat) \<Rightarrow> nat \<Rightarrow> rat \<Rightarrow> (pystr \<times> pystr option \<times> rat) list \<Rightarrow> snippet list" where
  "search_loop float_sub i threshold [] = []"
| "search_loop float_sub i threshold ((doc, src, distance) # rows) =
     (let sim = float_sub 1 distance in
      (if sim \<ge> threshold
       then [\<lparr>snippet_text = doc,
              source = (case src of None \<Rightarrow> u ''unknown'' | Some s \<Rightarrow> s),
              similarity = sim, rank = i + 1\<rparr>]
       else []) @ search_loop float_sub (i + 1) threshold rows)"

definition search ::
  "(rat \<Rightarrow> rat \<Rightarrow> rat) \<Rightarrow> collection \<Rightarrow> pystr \<Rightarrow> nat \<Rightarrow> rat \<Rightarrow> exn + snippet list" where
  "search float_sub coll query n_results similarity_threshold =
     (case coll query n_results of
        Inl e \<Rightarrow> Inl e
      | Inr rows \<Rightarrow> Inr (search_loop float_sub 0 similarity_threshold rows))"

section \<open>Evidence retrieval of the correction orchestrator\<close>

record retrieval_config =
  max_retrieved_docs :: nat
  similarity_threshold :: rat

text \<open>
  An entry of the evidence map. \<open>datetime.now()\<close> is read once for every claim; the
  readings are an input \<open>clock\<close>, indexed by the position of the claim in the loop.
\<close>

record evidence_info =
  ev_claim :: pystr
  retrieval_query :: pystr
  evidence :: "snippet list"
  retrieval_timestamp :: pystr

type_synonym evidence_map = "(pystr \<times> evidence_info) list"

definition build_retrieval_query ::
  "intent_classifier \<Rightarrow> gateway \<Rightarrow> request list \<Rightarrow> pystr \<Rightarrow> pystr \<Rightarrow> pystr \<Rightarrow>
   (exn + pystr) \<times> request list" where
  \<comment> \<open>the f-string joins the retrieval prompt, the label U+5177 U+4F53 U+9A8C U+8BC1
      U+58F0 U+660E (claim to verify) between a space and a colon, and the claim\<close>
  "build_retrieval_query C gw calls original_query clm intent =
     (case generate_retrieval_prompt C gw calls original_query intent of
        (Inl e, calls') \<Rightarrow> (Inl e, calls')
      | (Inr retrieval_prompt, calls') \<Rightarrow>
          (Inr (retrieval_prompt @ [32, 20855, 20307, 39564, 35777, 22768, 26126, 58, 32] @ clm),
           calls'))"

fun retrieve_loop ::
  "intent_classifier \<Rightarrow> retrieval_config \<Rightarrow> (rat \<Rightarrow> rat \<Rightarrow> rat) \<Rightarrow> collection \<Rightarrow> gateway \<Rightarrow>
   (nat \<Rightarrow> pystr) \<Rightarrow> pystr \<Rightarrow> pystr \<Rightarrow> nat \<Rightarrow> evidence_map \<Rightarrow> request list \<Rightarrow> claim list \<Rightarrow>
   (exn + evidence_map) \<times> request list" where
  \<comment> \<open>the loop \<open>for i, claim_info in enumerate(claims)\<close>\<close>
  "retrieve_loop C cfg float_sub coll gw clock query intent i emap calls [] = (Inr emap, calls)"
| "retrieve_loop C cfg float_sub coll gw clock query intent i emap calls (claim_info # rest) =
     (case claim_id claim_info of
        None \<Rightarrow> (Inl (KeyError (u ''id'')), calls)
      | Some cid \<Rightarrow>
          (case build_retrieval_query C gw calls query (claim_text claim_info) intent of
             (Inl e, calls') \<Rightarrow> (Inl e, calls')
           | (Inr rq, calls') \<Rightarrow>
               (case search float_sub coll rq (max_retrieved_docs cfg) (similarity_threshold cfg) of
                  Inl e \<Rightarrow> (Inl e, calls')
                | Inr evidence_snippets \<Rightarrow>
                    retrieve_loop C cfg float_sub coll gw clock query intent (i + 1)
                      (AList.update cid
                         \<lparr>ev_claim = claim_text claim_info, retrieval_query = rq,
                          evidence = evidence_snippets, retrieval_timestamp = clock i\<rparr> emap)
                      calls' rest)))"

definition retrieve_evidence_for_claims ::
  "intent_classifier \<Rightarrow> retrieval_config \<Rightarrow> (rat \<Rightarrow> rat \<Rightarrow> rat) \<Rightarrow> collection \<Rightarrow> gateway \<Rightarrow>
   (nat \<Rightarrow> pystr) \<Rightarrow> request list \<Rightarrow> pystr \<Rightarrow> claim list \<Rightarrow> pystr \<Rightarrow>
   (exn + evidence_map) \<times> request list" where
  "retrieve_evidence_for_claims C cfg float_sub coll gw clock calls query claims intent =
     retrieve_loop C cfg float_sub coll gw clock query intent 0 [] calls claims"

definition empty_collection :: collection where
  \<comment> \<open>an empty knowledge base, for concrete runs\<close>
  "empty_collection query n = Inr []"

definition epoch_clock :: "nat \<Rightarrow> pystr" where
  \<comment> \<open>a clock that always reads the same instant, for concrete runs\<close>
  "epoch_clock i = u ''1970-01-01T00:00:00''"

section \<open>EvidenceVerifier\<close>

text \<open>
  \<open>json.loads\<close> belongs to the standard library, not to the verified code. The decoder
  is an input \<open>loads\<close>: any function from a text to the value decoded from it or to the
  exception raised (\<open>JSONDecodeError\<close> for a text that is not JSON; the library also
  raises \<open>RecursionError\<close> on deep nesting and \<open>ValueError\<close> on an integer of too
  many digits). What is proved of the verifier holds for every decoder.
\<close>

type_synonym decoder = "pystr \<Rightarrow> exn + pyval"

definition re_search_braces :: "pystr \<Rightarrow> pystr option" where
  \<comment> \<open>\<open>re.search(r'\{.*\}', s, re.DOTALL)\<close>: from the first opening brace to the last
      closing brace after it\<close>
  "re_search_braces s =
     (case dropWhile (\<lambda>c. c \<noteq> 123) s of
        [] \<Rightarrow> None
      | b # rest \<Rightarrow>
          (case rev (dropWhile (\<lambda>c. c \<noteq> 125) (rev rest)) of
             [] \<Rightarrow> None
           | t \<Rightarrow> Some (b # t)))"

definition load_response_json :: "decoder \<Rightarrow> pystr \<Rightarrow> exn + pyval" where
  \<comment> \<open>the body of the \<open>try\<close> block of \<open>_parse_verification_response\<close>\<close>
  "load_response_json loads response =
     (case re_search_braces response of
        Some json_str \<Rightarrow> loads json_str
      | None \<Rightarrow> loads response)"

definition py_contains :: "pyval \<Rightarrow> pystr \<Rightarrow> exn + bool" where
  \<comment> \<open>\<open>field in result\<close>: a key of a \<open>dict\<close>, an element of a \<open>list\<close>, a substring
      of a \<open>str\<close>; \<open>TypeError\<close> for any other value\<close>
  "py_contains result field =
     (case result of
        PDict d \<Rightarrow> Inr (map_of d field \<noteq> None)
      | PList xs \<Rightarrow> Inr (PStr field \<in> set xs)
      | PStr s \<Rightarrow> Inr (str_contains field s)
      | _ \<Rightarrow> Inl TypeError)"

definition create_error_result :: "pystr \<Rightarrow> pystr \<Rightarrow> pystr \<Rightarrow> pydict" where
  \<comment> \<open>the reasoning starts with U+9A8C U+8BC1 U+8FC7 U+7A0B U+4E2D U+53D1 U+751F
      U+9519 U+8BEF (an error occurred during verification), a colon and a space\<close>
  "create_error_result now clm error_message =
     [(u ''verdict'', PStr (u ''UNVERIFIED'')),
      (u ''confidence'', PFloat (Finite 0)),
      (u ''claim'', PStr clm),
      (u ''supporting_evidence'', PList []),
      (u ''contradicting_evidence'', PList []),
      (u ''reasoning'',
         PStr ([39564, 35777, 36807, 31243, 20013, 21457, 29983, 38169, 35823, 58, 32] @ error_message)),
      (u ''intent_specific_analysis'', PStr []),
      (u ''error'', PBool True),
      (u ''timestamp'', PStr now)]"

definition create_fallback_result :: "pystr \<Rightarrow> pystr \<Rightarrow> pystr \<Rightarrow> pystr \<Rightarrow> pydict" where
  \<comment> \<open>the reasoning is a fixed Chinese phrase (the verification response could not be
      parsed, original response), the first 200 characters of the response and three
      dots; the analysis is a fixed phrase (response format error)\<close>
  "create_fallback_result now clm intent raw_response =
     [(u ''verdict'', PStr (u ''UNVERIFIED'')),
      (u ''confidence'', PFloat (Finite (3 / 10))),
      (u ''claim'', PStr clm),
      (u ''intent'', PStr intent),
      (u ''supporting_evidence'', PList []),
      (u ''contradicting_evidence'', PList []),
      (u ''reasoning'',
         PStr ([26080, 27861, 35299, 26512, 39564, 35777, 21709, 24212, 65292, 21407, 22987,
                21709, 24212, 58, 32] @ take 200 raw_response @ u ''...'')),
      (u ''intent_specific_analysis'',
         PStr [21709, 24212, 26684, 24335, 38169, 35823, 65292, 26080, 27861, 36827, 34892,
               24847, 22270, 29305, 23450, 20998, 26512]),
      (u ''fallback'', PBool True),
      (u ''timestamp'', PStr now)]"

definition ensure_list_field :: "pystr \<Rightarrow> pydict \<Rightarrow> pydict" where
  \<comment> \<open>\<open>if f not in result or not isinstance(result[f], list): result[f] = []\<close>\<close>
  "ensure_list_field f d =
     (case map_of d f of
        Some (PList _) \<Rightarrow> d
      | _ \<Rightarrow> AList.update f (PList []) d)"

definition parse_verification_response ::
  "decoder \<Rightarrow> pystr \<Rightarrow> pystr \<Rightarrow> pystr \<Rightarrow> pystr \<Rightarrow> exn + pydict" where
  \<comment> \<open>\<open>now\<close> is the reading of the clock that \<open>_get_timestamp\<close> returns in this call;
      the \<open>except\<close> clause catches \<open>JSONDecodeError\<close> and lets any other exception
      pass\<close>
  "parse_verification_response loads now response clm intent =
     (case load_response_json loads response of
        Inl e \<Rightarrow>
          if e = JSONDecodeError then Inr (create_fallback_result now clm intent response)
          else Inl e
      | Inr result \<Rightarrow>
          (case py_contains result (u ''verdict'') of
             Inl e \<Rightarrow> Inl e
           | Inr False \<Rightarrow> Inr (create_fallback_result now clm intent response)
           | Inr True \<Rightarrow>
               (case py_contains result (u ''confidence'') of
                  Inl e \<Rightarrow> Inl e
                | Inr False \<Rightarrow> Inr (create_fallback_result now clm intent response)
                | Inr True \<Rightarrow>
                    (case result of
                       PDict d \<Rightarrow>
                         Inr (ensure_list_field (u ''contradicting_evidence'')
                               (ensure_list_field (u ''supporting_evidence'')
                                 (AList.update (u ''timestamp'') (PStr now)
                                   (AList.update (u ''intent'') (PStr intent)
                                     (AList.update (u ''claim'') (PStr clm) d)))))
                     | _ \<Rightarrow> Inl TypeError))))"

definition verify_claim ::
  "(pyval \<Rightarrow> pystr) \<Rightarrow> decoder \<Rightarrow> gateway \<Rightarrow> request list \<Rightarrow> pystr \<Rightarrow> pystr \<Rightarrow>
   snippet list \<Rightarrow> pystr \<Rightarrow> pystr \<Rightarrow> (exn + pydict) \<times> request list" where
  \<comment> \<open>\<open>py_str\<close> is \<open>str()\<close> on a value that is not a string, which the f-string of
      \<open>_create_error_result\<close> applies to such an \<open>error_message\<close>\<close>
  "verify_claim py_str loads gw calls now clm evidence_snippets query intent =
     (let (response, calls') =
            call_with_retry gw calls (VerificationPrompt clm evidence_snippets query intent)
      in if truthy (dict_get response (u ''error'')) then
           (case dict_item response (u ''error_message'') of
              Inl e \<Rightarrow> (Inl e, calls')
            | Inr (PStr m) \<Rightarrow> (Inr (create_error_result now clm m), calls')
            | Inr v \<Rightarrow> (Inr (create_error_result now clm (py_str v)), calls'))
         else
           (case dict_item response (u ''text'') of
              Inl e \<Rightarrow> (Inl e, calls')
            | Inr (PStr t) \<Rightarrow> (parse_verification_response loads now t clm intent, calls')
            | Inr _ \<Rightarrow> (Inl TypeError, calls')))"

definition unverified_result :: "pystr \<Rightarrow> pystr \<Rightarrow> pydict" where
  \<comment> \<open>the dictionary of the \<open>else\<close> branch of \<open>batch_verify\<close>; the reasoning is U+672A
      U+80FD U+68C0 U+7D22 U+5230 U+76F8 U+5173 U+8BC1 U+636E U+8FDB U+884C U+9A8C U+8BC1
      (no relevant evidence could be retrieved for the verification)\<close>
  "unverified_result cid clm =
     [(u ''claim_id'', PStr cid),
      (u ''claim'', PStr clm),
      (u ''verdict'', PStr (u ''UNVERIFIED'')),
      (u ''confidence'', PFloat (Finite 0)),
      (u ''evidence_count'', PInt 0),
      (u ''reasoning'',
         PStr [26410, 33021, 26816, 32034, 21040, 30456, 20851, 35777, 25454, 36827, 34892,
               39564, 35777]),
      (u ''supporting_evidence'', PList []),
      (u ''contradicting_evidence'', PList [])]"

fun batch_verify_loop ::
  "(pyval \<Rightarrow> pystr) \<Rightarrow> decoder \<Rightarrow> gateway \<Rightarrow> (nat \<Rightarrow> pystr) \<Rightarrow> evidence_map \<Rightarrow> pystr \<Rightarrow>
   pystr \<Rightarrow> nat \<Rightarrow> request list \<Rightarrow> claim list \<Rightarrow> (exn + pydict list) \<times> request list" where
  \<comment> \<open>the loop \<open>for claim_info in claims\<close>, from the claim at position \<open>i\<close> on; the
      result is the list of the verifications appended from there on\<close>
  "batch_verify_loop py_str loads gw clock emap query intent i calls [] = (Inr [], calls)"
| "batch_verify_loop py_str loads gw clock emap query intent i calls (claim_info # rest) =
     (case claim_id claim_info of
        None \<Rightarrow> (Inl (KeyError (u ''id'')), calls)
      | Some cid \<Rightarrow>
          (case map_of emap cid of
             Some evidence_info \<Rightarrow>
               (case verify_claim py_str loads gw calls (clock i) (claim_text claim_info)
                       (evidence evidence_info) query intent of
                  (Inl e, calls') \<Rightarrow> (Inl e, calls')
                | (Inr verification_result, calls') \<Rightarrow>
                    (case batch_verify_loop py_str loads gw clock emap query intent (i + 1) calls' rest of
                       (Inl e, calls'') \<Rightarrow> (Inl e, calls'')
                     | (Inr vs, calls'') \<Rightarrow>
                         (Inr (AList.update (u ''evidence_count'')
                                 (PInt (int (length (evidence evidence_info))))
                                 (AList.update (u ''claim_id'') (PStr cid) verification_result)
                               # vs), calls'')))
           | None \<Rightarrow>
               (case batch_verify_loop py_str loads gw clock emap query intent (i + 1) calls rest of
                  (Inl e, calls'') \<Rightarrow> (Inl e, calls'')
                | (Inr vs, calls'') \<Rightarrow>
                    (Inr (unverified_result cid (claim_text claim_info) # vs), calls''))))"

definition batch_verify ::
  "(pyval \<Rightarrow> pystr) \<Rightarrow> decoder \<Rightarrow> gateway \<Rightarrow> (nat \<Rightarrow> pystr) \<Rightarrow> request list \<Rightarrow> claim list \<Rightarrow>
   evidence_map \<Rightarrow> pystr \<Rightarrow> pystr \<Rightarrow> (exn + pydict list) \<times> request list" where
  "batch_verify py_str loads gw clock calls claims emap query intent =
     batch_verify_loop py_str loads gw clock emap query intent 0 calls claims"

definition plain_str :: "pyval \<Rightarrow> pystr" where
  \<comment> \<open>a rendering of values for concrete runs, in which it is never applied\<close>
  "plain_str v = (case v of PStr s \<Rightarrow> s | _ \<Rightarrow> u ''?'')"

section \<open>The pipeline controller\<close>

text \<open>
  \<open>process_query\<close> of the core orchestrator runs eight stages in a fixed order inside
  one \<open>try\<close> block. The stages are parameters here: each takes its arguments and
  returns its value with its metadata, or raises. The values handed from stage to stage
  are not inspected by the controller, so their types are left open. \<open>execution_steps\<close>
  is a dictionary in insertion order; an entry is written only after its stage has
  returned.
\<close>

record ('c, 'e, 'v, 'h) results =
  r_initial_answer :: pystr
  r_intent :: pystr
  r_claims :: 'c
  r_evidence_map :: 'e
  r_verifications :: 'v
  r_corrected_answer :: pystr
  r_hallucination_analysis :: 'h

record ('c, 'e, 'v, 'h, 'r, 'm) stages =
  generate_initial_answer :: "pystr \<Rightarrow> pystr option \<Rightarrow> exn + (pystr \<times> 'm)"
  classify_intent_stage :: "pystr \<Rightarrow> exn + (pystr \<times> 'm)"
  extract_claims_stage :: "pystr \<Rightarrow> exn + ('c \<times> 'm)"
  retrieve_evidence :: "pystr \<Rightarrow> 'c \<Rightarrow> pystr \<Rightarrow> exn + ('e \<times> 'm)"
  verify_claims :: "'c \<Rightarrow> 'e \<Rightarrow> pystr \<Rightarrow> pystr \<Rightarrow> exn + ('v \<times> 'm)"
  correct_answer :: "pystr \<Rightarrow> 'v \<Rightarrow> pystr \<Rightarrow> pystr \<Rightarrow> exn + (pystr \<times> 'm)"
  detect_hallucinations :: "pystr \<Rightarrow> pystr \<Rightarrow> pystr \<Rightarrow> 'e \<Rightarrow> exn + ('h \<times> 'm)"
  generate_final_report :: "('c, 'e, 'v, 'h) results \<Rightarrow> (pystr \<times> 'm) list \<Rightarrow> exn + 'r"

text \<open>
  The returned dictionary has one of two shapes. \<open>Completed\<close> is \<open>success = True\<close> with
  the query, the results, the final report, \<open>execution_steps\<close> and its keys as
  \<open>steps_completed\<close>; \<open>Failed\<close> is \<open>success = False\<close> with the query, the exception
  (the dictionary holds its \<open>str\<close>) and \<open>error_step\<close>. Durations and timestamps are
  left out.
\<close>

datatype ('c, 'e, 'v, 'h, 'r, 'm) report =
    Completed pystr "('c, 'e, 'v, 'h) results" 'r "(pystr \<times> 'm) list" "pystr list"
  | Failed pystr exn pystr

definition identify_error_step :: "(pystr \<times> 'm) list \<Rightarrow> pystr" where
  "identify_error_step execution_steps =
     (if execution_steps = [] then u ''initialization'' else fst (last execution_steps))"

definition process_query ::
  "('c, 'e, 'v, 'h, 'r, 'm) stages \<Rightarrow> pystr \<Rightarrow> pystr option \<Rightarrow>
   ('c, 'e, 'v, 'h, 'r, 'm) report" where
  "process_query S query context =
     (case generate_initial_answer S query context of
        Inl e \<Rightarrow> Failed query e (identify_error_step ([] :: (pystr \<times> 'm) list))
      | Inr (answer, m1) \<Rightarrow>
     let steps1 = [(u ''initial_answer_generation'', m1)] in
     (case classify_intent_stage S query of
        Inl e \<Rightarrow> Failed query e (identify_error_step steps1)
      | Inr (detected, m2) \<Rightarrow>
     let steps2 = steps1 @ [(u ''intent_classification'', m2)] in
     (case extract_claims_stage S answer of
        Inl e \<Rightarrow> Failed query e (identify_error_step steps2)
      | Inr (cs, m3) \<Rightarrow>
     let steps3 = steps2 @ [(u ''claim_extraction'', m3)] in
     (case retrieve_evidence S query cs detected of
        Inl e \<Rightarrow> Failed query e (identify_error_step steps3)
      | Inr (emap, m4) \<Rightarrow>
     let steps4 = steps3 @ [(u ''evidence_retrieval'', m4)] in
     (case verify_claims S cs emap query detected of
        Inl e \<Rightarrow> Failed query e (identify_error_step steps4)
      | Inr (vs, m5) \<Rightarrow>
     let steps5 = steps4 @ [(u ''claim_verification'', m5)] in
     (case correct_answer S answer vs query detected of
        Inl e \<Rightarrow> Failed query e (identify_error_step steps5)
      | Inr (corrected, m6) \<Rightarrow>
     let steps6 = steps5 @ [(u ''answer_correction'', m6)] in
     (case detect_hallucinations S query answer corrected emap of
        Inl e \<Rightarrow> Failed query e (identify_error_step steps6)
      | Inr (analysis, m7) \<Rightarrow>
     let steps7 = steps6 @ [(u ''hallucination_detection'', m7)];
         res = \<lparr>r_initial_answer = answer, r_intent = detected, r_claims = cs,
                r_evidence_map = emap, r_verifications = vs, r_corrected_answer = corrected,
                r_hallucination_analysis = analysis\<rparr>
     in
     (case generate_final_report S res steps7 of
        Inl e \<Rightarrow> Failed query e (identify_error_step steps7)
      | Inr final_report \<Rightarrow>
          Completed query res final_report steps7 (map fst steps7)))))))))"

section \<open>Concrete runs\<close>

text \<open>The inputs of the runs that the theorems below evaluate.\<close>

definition demo_claim :: claim where
  "demo_claim =
     \<lparr>claim_id = Some (u ''claim_1''), claim_text = u ''Python is compiled'',
      confidence = 9 / 10, atomic = True, original_position = Some 0\<rparr>"

definition demo_config :: intent_config where
  "demo_config =
     \<lparr>cfg_supported_intents = Some [factual_query, comparison_query, method_query, opinion_query],
      cfg_default_intent = Some factual_query\<rparr>"

definition demo_retrieval_config :: retrieval_config where
  "demo_retrieval_config = \<lparr>max_retrieved_docs = 5, similarity_threshold = 3 / 4\<rparr>"

definition rational_sub :: "rat \<Rightarrow> rat \<Rightarrow> rat" where
  \<comment> \<open>a subtraction for the concrete runs, in which it is never applied: their
      collection is empty\<close>
  "rational_sub a b = a - b"

definition json_loads_table :: decoder where
  \<comment> \<open>what \<open>json.loads\<close> gives on the three texts that the concrete runs decode: two
      objects, and \<open>JSONDecodeError\<close> on a line of prose; a text outside the table is
      answered with an exception that no run meets\<close>
  "json_loads_table s =
     (if s = u ''{\"verdict\": \"SUPPORTED\", \"confidence\": 0.9}''
      then Inr (PDict [(u ''verdict'', PStr (u ''SUPPORTED'')),
                       (u ''confidence'', PFloat (Finite (9 / 10)))])
      else if s = u ''{\"verdict\": \"MAYBE\", \"confidence\": 0.5}''
      then Inr (PDict [(u ''verdict'', PStr (u ''MAYBE'')),
                       (u ''confidence'', PFloat (Finite (1 / 2)))])
      else if s = u ''I cannot tell''
      then Inl JSONDecodeError
      else Inl (Raised (u ''outside the table'')))"

definition demo_evidence_map :: evidence_map where
  \<comment> \<open>the map that retrieval builds for \<open>demo_claim\<close> over an empty knowledge base\<close>
  "demo_evidence_map =
     [(u ''claim_1'',
       \<lparr>ev_claim = u ''Python is compiled'',
        retrieval_query =
          [25214, 21040, 20851, 20110, 91] @ u ''What is Python?'' @
          [93, 30340, 20855, 20307, 20107, 23454] @
          [32, 20855, 20307, 39564, 35777, 22768, 26126, 58, 32] @ u ''Python is compiled'',
        evidence = [], retrieval_timestamp = u ''1970-01-01T00:00:00''\<rparr>)]"

definition supporting_gateway :: gateway where
  "supporting_gateway =
     fixed_gateway
       (ok_response (u ''{\"verdict\": \"SUPPORTED\", \"confidence\": 0.9}'') 40 12 (u ''m'') (u ''stop''))"

definition maybe_gateway :: gateway where
  "maybe_gateway =
     fixed_gateway
       (ok_response (u ''{\"verdict\": \"MAYBE\", \"confidence\": 0.5}'') 40 12 (u ''m'') (u ''stop''))"

definition prose_gateway :: gateway where
  "prose_gateway = fixed_gateway (ok_response (u ''I cannot tell'') 40 4 (u ''m'') (u ''stop''))"

definition long_number_line :: "nat \<Rightarrow> pystr" where
  \<comment> \<open>a claim line whose number is the digit 9 written \<open>n\<close> times\<close>
  "long_number_line n = u ''[CLAIM_'' @ replicate n 57 @ u '']: The sky is blue''"

definition long_number_gateway :: "nat \<Rightarrow> gateway" where
  "long_number_gateway n = fixed_gateway (ok_response (long_number_line n) 30 4400 (u ''m'') (u ''stop''))"

definition sky_claim :: "pystr \<Rightarrow> claim" where
  "sky_claim cid =
     \<lparr>claim_id = Some cid, claim_text = u ''The sky is blue'', confidence = 9 / 10,
      atomic = True, original_position = Some 0\<rparr>"

definition grass_claim :: "pystr \<Rightarrow> claim" where
  "grass_claim cid =
     \<lparr>claim_id = Some cid, claim_text = u ''Grass is green'', confidence = 9 / 10,
      atomic = True, original_position = Some 17\<rparr>"

definition snow_claim :: "pystr \<Rightarrow> claim" where
  "snow_claim cid =
     \<lparr>claim_id = Some cid, claim_text = u ''Snow is white'', confidence = 9 / 10,
      atomic = True, original_position = Some 0\<rparr>"

definition counting_clock :: "nat \<Rightarrow> pystr" where
  \<comment> \<open>a clock whose readings differ from turn to turn, for concrete runs of at most ten
      turns: reading \<open>i\<close> is second \<open>i\<close> of the epoch\<close>
  "counting_clock i = u ''1970-01-01T00:00:0'' @ str_of_nat i"

definition repeated_id_claims :: "claim list" where
  "repeated_id_claims =
     [sky_claim (u ''claim_1''), grass_claim (u ''claim_2''), snow_claim (u ''claim_1'')]"

definition distinct_id_claims :: "claim list" where
  "distinct_id_claims = [sky_claim (u ''claim_1''), grass_claim (u ''claim_2'')]"

definition colour_entry :: "pystr \<Rightarrow> pystr \<Rightarrow> evidence_info" where
  \<comment> \<open>the entry that retrieval over an empty knowledge base builds at the given time
      for a claim with the given text, for the query \<open>What colour is the sky?\<close> with the
      factual intent\<close>
  "colour_entry ctext stamp =
     \<lparr>ev_claim = ctext,
      retrieval_query =
        [25214, 21040, 20851, 20110, 91] @ u ''What colour is the sky?'' @
        [93, 30340, 20855, 20307, 20107, 23454] @
        [32, 20855, 20307, 39564, 35777, 22768, 26126, 58, 32] @ ctext,
      evidence = [], retrieval_timestamp = stamp\<rparr>"

definition repeated_claim_lines :: pystr where
  \<comment> \<open>two claim lines that carry the same number, separated by a newline\<close>
  "repeated_claim_lines = u ''[CLAIM_1]: The sky is blue'' @ [10] @ u ''[CLAIM_1]: Grass is green''"

definition repeating_gateway :: gateway where
  "repeating_gateway =
     fixed_gateway (ok_response repeated_claim_lines 30 16 (u ''m'') (u ''stop''))"

definition requests_for :: "evidence_map \<Rightarrow> pystr \<Rightarrow> pystr \<Rightarrow> claim list \<Rightarrow> request list" where
  \<comment> \<open>the verification request of every claim whose id is a key of the map, in order\<close>
  "requests_for emap query intent cs =
     concat (map (\<lambda>c. case claim_id c of
                          None \<Rightarrow> []
                        | Some cid \<Rightarrow>
                            (case map_of emap cid of
                               None \<Rightarrow> []
                             | Some info \<Rightarrow>
                                 [VerificationPrompt (claim_text c) (evidence info) query intent]))
             cs)"

definition stages_failing_at :: "nat \<Rightarrow> (unit, unit, unit, unit, unit, unit) stages" where
  \<comment> \<open>stages that hand on fixed values, except that stage number \<open>k\<close> (from 0) raises\<close>
  "stages_failing_at k =
     \<lparr>generate_initial_answer =
        (\<lambda>q c. if k = 0 then Inl (Raised (u ''stage failed'')) else Inr (u ''Python is compiled'', ())),
      classify_intent_stage =
        (\<lambda>q. if k = 1 then Inl (Raised (u ''stage failed'')) else Inr (factual_query, ())),
      extract_claims_stage =
        (\<lambda>a. if k = 2 then Inl (Raised (u ''stage failed'')) else Inr ((), ())),
      retrieve_evidence =
        (\<lambda>q c i. if k = 3 then Inl (Raised (u ''stage failed'')) else Inr ((), ())),
      verify_claims =
        (\<lambda>c e q i. if k = 4 then Inl (Raised (u ''stage failed'')) else Inr ((), ())),
      correct_answer =
        (\<lambda>a v q i. if k = 5 then Inl (Raised (u ''stage failed'')) else Inr (u ''Python is interpreted'', ())),
      detect_hallucinations =
        (\<lambda>q a c e. if k = 6 then Inl (Raised (u ''stage failed'')) else Inr ((), ())),
      generate_final_report =
        (\<lambda>r s. if k = 7 then Inl (Raised (u ''stage failed'')) else Inr ())\<rparr>"

section \<open>Properties of ClaimExtractor\<close>

text \<open>
  C8: for every input text whose trimmed length is shorter than 10 characters,
  \<open>extract_claims\<close> returns exactly one claim whose text is the input, with confidence
  1.0 and \<open>atomic = True\<close>, and issues no gateway call (the list of issued requests is
  returned unchanged).
\<close>

theorem extract_claims_short_text:
  "length (strip txt) < 10 \<Longrightarrow>
   extract_claims gw calls txt =
     (Inr [\<lparr>claim_id = None, claim_text = txt, confidence = 1, atomic = True,
            original_position = None\<rparr>], calls)"
  by (simp add: extract_claims_def whole_text_claim_def)

theorem extract_claims_short_text_witness:
  "length (strip (u ''  Hi.  '')) < 10 \<and>
   extract_claims failing_gateway [] (u ''  Hi.  '') =
     (Inr [\<lparr>claim_id = None, claim_text = u ''  Hi.  '', confidence = 1, atomic = True,
            original_position = None\<rparr>], [])"
proof -
  have h: "length (strip (u ''  Hi.  '')) < 10"
    by (simp add: strip_def u_def is_space_def)
  show ?thesis
    using h extract_claims_short_text [OF h, of failing_gateway "[]"] by simp
qed

lemma split_char_no_sep: "sep \<notin> set xs \<Longrightarrow> split_char sep xs = [xs]"
  by (induction xs) auto

lemma split_char_append:
  "sep \<notin> set xs \<Longrightarrow> split_char sep (xs @ sep # ys) = xs # split_char sep ys"
  by (induction xs) auto

lemma takeWhile_replicate_append:
  "P x \<Longrightarrow> \<not> P y \<Longrightarrow> takeWhile P (replicate n x @ y # ys) = replicate n x"
  by (induction n) auto

lemma dropWhile_replicate_append:
  "P x \<Longrightarrow> \<not> P y \<Longrightarrow> dropWhile P (replicate n x @ y # ys) = y # ys"
  by (induction n) auto

lemma fallback_loop_texts:
  "map claim_text (fallback_loop i ss) = filter (\<lambda>s. 10 < length s) (map strip ss)"
  by (induction ss arbitrary: i) (simp_all add: Let_def)

lemma fallback_loop_fields:
  "c \<in> set (fallback_loop i ss) \<Longrightarrow> confidence c = 7 / 10 \<and> \<not> atomic c"
  by (induction ss arbitrary: i) (auto simp: Let_def split: if_splits)

lemma fallback_extraction_nonempty: "fallback_extraction txt \<noteq> []"
  by (simp add: fallback_extraction_def Let_def)

lemma parse_lines_error: "parse_lines txt ls = Inl e \<Longrightarrow> e = ValueError"
  by (induction ls)
     (auto simp: Let_def int_of_digits_def split: if_splits option.splits sum.splits)

lemma parse_lines_within_limit:
  "\<forall>l \<in> set ls. \<forall>g1 g2. match_claim_line (strip l) = Some (g1, g2) \<longrightarrow>
      length g1 \<le> max_str_digits \<Longrightarrow>
   \<exists>cs. parse_lines txt ls = Inr cs"
  by (induction ls)
     (auto simp: Let_def int_of_digits_def split: if_splits option.splits sum.splits)

lemma parse_claims_response_cases:
  "parse_claims_response response txt = Inl ValueError \<or>
   (\<exists>cs. parse_claims_response response txt = Inr cs \<and> cs \<noteq> [])"
  using parse_lines_error [of "txt" "split_char 10 (strip response)"]
  by (auto simp: parse_claims_response_def fallback_extraction_nonempty split: sum.splits)

lemma extract_claims_gateway_error:
  "\<not> length (strip txt) < 10 \<Longrightarrow>
   truthy (dict_get (gw calls (ClaimExtractionPrompt txt)) (u ''error'')) \<Longrightarrow>
   extract_claims gw calls txt =
     (Inr (fallback_extraction txt), calls @ [ClaimExtractionPrompt txt])"
  by (auto simp: extract_claims_def call_with_retry_def strip_def)

text \<open>
  C7, as stated, has the fallback keep exactly the fragments that are not shorter than 10
  characters. The guard of the loop is \<open>len(sentence) > 10\<close>: in the run below the
  gateway fails, the text splits into the trimmed fragments \<open>abcdefghij\<close> (10
  characters), \<open>klmnopqrstuvw\<close> and the empty one, and only the second becomes a claim.
\<close>

theorem fallback_extraction_ten_characters_counterexample:
  "map strip (re_split_runs is_terminal (u ''abcdefghij. klmnopqrstuvw.'')) =
     [u ''abcdefghij'', u ''klmnopqrstuvw'', []] \<and>
   \<not> length (u ''abcdefghij'') < 10 \<and>
   fst (extract_claims failing_gateway [] (u ''abcdefghij. klmnopqrstuvw.'')) =
     Inr [\<lparr>claim_id = Some (u ''claim_2''), claim_text = u ''klmnopqrstuvw'',
           confidence = 7 / 10, atomic = False, original_position = Some 1\<rparr>]"
  by (simp add: extract_claims_def call_with_retry_def failing_gateway_def error_response_def
      dict_get_def fallback_extraction_def strip_def u_def is_space_def is_terminal_def
      str_of_nat.simps)

text \<open>
  C7, amended: the fallback splits the text on runs of terminal punctuation and trims each
  piece; exactly the trimmed pieces longer than 10 characters are kept, in order, each as
  a claim with confidence 0.7 and \<open>atomic = False\<close>, and pieces of 10 characters or
  fewer are discarded. When no piece is kept the result is the single whole-text claim.
\<close>

theorem fallback_extraction_keeps_long_fragments:
  "(filter (\<lambda>s. 10 < length s) (map strip (re_split_runs is_terminal txt)) \<noteq> [] \<longrightarrow>
      map claim_text (fallback_extraction txt) =
        filter (\<lambda>s. 10 < length s) (map strip (re_split_runs is_terminal txt)) \<and>
      (\<forall>c \<in> set (fallback_extraction txt). confidence c = 7 / 10 \<and> \<not> atomic c)) \<and>
   (filter (\<lambda>s. 10 < length s) (map strip (re_split_runs is_terminal txt)) = [] \<longrightarrow>
      fallback_extraction txt = [whole_text_claim txt])"
proof -
  let ?ss = "re_split_runs is_terminal txt"
  let ?kept = "filter (\<lambda>s. 10 < length s) (map strip ?ss)"
  have texts: "map claim_text (fallback_loop 0 ?ss) = ?kept"
    by (rule fallback_loop_texts)
  have empty_iff: "fallback_loop 0 ?ss = [] \<longleftrightarrow> ?kept = []"
    using texts by (metis map_is_Nil_conv)
  show ?thesis
  proof (cases "?kept = []")
    case True
    then show ?thesis
      using empty_iff by (simp add: fallback_extraction_def Let_def)
  next
    case False
    then have loop: "fallback_extraction txt = fallback_loop 0 ?ss"
      using empty_iff by (simp add: fallback_extraction_def Let_def)
    show ?thesis
      using False texts fallback_loop_fields [of _ 0 ?ss] by (auto simp: loop)
  qed
qed

theorem fallback_extraction_keeps_long_fragments_witness:
  "filter (\<lambda>s. 10 < length s)
     (map strip (re_split_runs is_terminal (u ''abcdefghij. klmnopqrstuvw.''))) \<noteq> [] \<and>
   map claim_text (fallback_extraction (u ''abcdefghij. klmnopqrstuvw.'')) = [u ''klmnopqrstuvw''] \<and>
   map confidence (fallback_extraction (u ''abcdefghij. klmnopqrstuvw.'')) = [7 / 10] \<and>
   map atomic (fallback_extraction (u ''abcdefghij. klmnopqrstuvw.'')) = [False]"
proof -
  have kept: "filter (\<lambda>s. 10 < length s)
      (map strip (re_split_runs is_terminal (u ''abcdefghij. klmnopqrstuvw.''))) = [u ''klmnopqrstuvw'']"
    by (simp add: strip_def u_def is_space_def is_terminal_def)
  have run: "fallback_extraction (u ''abcdefghij. klmnopqrstuvw.'') =
      [\<lparr>claim_id = Some (u ''claim_2''), claim_text = u ''klmnopqrstuvw'',
        confidence = 7 / 10, atomic = False, original_position = Some 1\<rparr>]"
    by (simp add: fallback_extraction_def strip_def u_def is_space_def is_terminal_def
        str_of_nat.simps)
  show ?thesis
    using fallback_extraction_keeps_long_fragments [of "u ''abcdefghij. klmnopqrstuvw.''"]
    by (simp add: kept run)
qed

text \<open>
  C6: \<open>extract_claims\<close> should return a non-empty list for every gateway response. The
  number of a claim line is converted with \<open>int\<close>, which raises \<open>ValueError\<close> on a string
  of more than 4300 digits, and no handler catches it: on a success response whose claim
  line carries a number of 4301 digits, \<open>extract_claims\<close> raises and returns no list,
  where a line that cannot be read should lead to the fallback.
\<close>

theorem extract_claims_long_claim_number_raises:
  "documented_response
     (long_number_gateway 4301 [] (ClaimExtractionPrompt (u ''The sky is blue. Grass is green.''))) \<and>
   extract_claims (long_number_gateway 4301) [] (u ''The sky is blue. Grass is green.'') =
     (Inl ValueError, [ClaimExtractionPrompt (u ''The sky is blue. Grass is green.'')])"
proof -
  let ?n = "4301 :: nat"
  have shape: "documented_response
      (long_number_gateway ?n [] (ClaimExtractionPrompt (u ''The sky is blue. Grass is green.'')))"
    by (simp add: documented_response_def long_number_gateway_def fixed_gateway_def
        ok_response_def u_def)
  have no_error: "\<not> truthy (dict_get (ok_response (long_number_line ?n) 30 4400 (u ''m'') (u ''stop''))
      (u ''error''))"
    by (simp add: ok_response_def dict_get_def u_def)
  have response_text: "dict_item (ok_response (long_number_line ?n) 30 4400 (u ''m'') (u ''stop''))
      (u ''text'') = Inr (PStr (long_number_line ?n))"
    by (simp add: ok_response_def dict_item_def)
  have long: "u ''The sky is blue. Grass is green.'' \<noteq> []"
    "\<not> length (strip (u ''The sky is blue. Grass is green.'')) < 10"
    by (simp_all add: strip_def is_space_def u_def)
  have stripped: "strip (long_number_line ?n) = long_number_line ?n"
    by (simp add: long_number_line_def strip_def is_space_def u_def)
  have "10 \<notin> set (long_number_line ?n)"
    by (simp add: long_number_line_def u_def)
  then have lines: "split_char 10 (strip (long_number_line ?n)) = [long_number_line ?n]"
    by (simp add: stripped split_char_no_sep)
  have digit: "is_digit 57" "\<not> is_digit 93"
    by (simp_all add: is_digit_def digit_value_def decimal_zeros_def)
  have matched: "match_claim_line (long_number_line ?n) =
      Some (replicate ?n 57, u ''The sky is blue'')"
    by (simp add: match_claim_line_def match_ws_then_any_def is_space_def long_number_line_def
        u_def digit takeWhile_replicate_append dropWhile_replicate_append)
  have nonempty: "long_number_line ?n \<noteq> []"
    by (simp add: long_number_line_def u_def)
  have "int_of_digits (replicate ?n 57) = Inl ValueError"
    by (simp add: int_of_digits_def max_str_digits_def)
  then have "parse_lines (u ''The sky is blue. Grass is green.'') [long_number_line ?n] =
      Inl ValueError"
    using matched nonempty by (simp add: stripped)
  then have "parse_claims_response (long_number_line ?n) (u ''The sky is blue. Grass is green.'') =
      Inl ValueError"
    by (simp add: parse_claims_response_def lines del: parse_lines.simps)
  then have "extract_claims (long_number_gateway ?n) [] (u ''The sky is blue. Grass is green.'') =
     (Inl ValueError, [ClaimExtractionPrompt (u ''The sky is blue. Grass is green.'')])"
    using no_error response_text long
    by (simp add: extract_claims_def call_with_retry_def long_number_gateway_def fixed_gateway_def)
  with shape show ?thesis
    by simp
qed

text \<open>
  What holds of \<open>extract_claims\<close> for every input text and every gateway response of a
  documented shape: it returns a non-empty list of claims or raises \<open>ValueError\<close>, and it
  returns the list whenever the gateway failed or no claim line of the response carries a
  number of more than 4300 digits.
\<close>

theorem extract_claims_nonempty_within_limit:
  assumes "documented_response (gw calls (ClaimExtractionPrompt txt))"
  shows "((\<exists>cs. fst (extract_claims gw calls txt) = Inr cs \<and> cs \<noteq> []) \<or>
          fst (extract_claims gw calls txt) = Inl ValueError) \<and>
         (truthy (dict_get (gw calls (ClaimExtractionPrompt txt)) (u ''error'')) \<or>
          (\<exists>t. map_of (gw calls (ClaimExtractionPrompt txt)) (u ''text'') = Some (PStr t) \<and>
               (\<forall>l \<in> set (split_char 10 (strip t)). \<forall>g1 g2.
                  match_claim_line (strip l) = Some (g1, g2) \<longrightarrow> length g1 \<le> max_str_digits)) \<longrightarrow>
          (\<exists>cs. fst (extract_claims gw calls txt) = Inr cs \<and> cs \<noteq> []))"
proof (intro conjI impI)
  show "(\<exists>cs. fst (extract_claims gw calls txt) = Inr cs \<and> cs \<noteq> []) \<or>
        fst (extract_claims gw calls txt) = Inl ValueError"
    using assms parse_claims_response_cases [of _ "txt"]
    by (auto simp: extract_claims_def call_with_retry_def documented_response_def dict_item_def
        fallback_extraction_nonempty split: option.splits pyval.splits)
next
  assume ok: "truthy (dict_get (gw calls (ClaimExtractionPrompt txt)) (u ''error'')) \<or>
          (\<exists>t. map_of (gw calls (ClaimExtractionPrompt txt)) (u ''text'') = Some (PStr t) \<and>
               (\<forall>l \<in> set (split_char 10 (strip t)). \<forall>g1 g2.
                  match_claim_line (strip l) = Some (g1, g2) \<longrightarrow> length g1 \<le> max_str_digits))"
  show "\<exists>cs. fst (extract_claims gw calls txt) = Inr cs \<and> cs \<noteq> []"
  proof (cases "truthy (dict_get (gw calls (ClaimExtractionPrompt txt)) (u ''error''))")
    case True
    then show ?thesis
      by (auto simp: extract_claims_def call_with_retry_def fallback_extraction_nonempty)
  next
    case False
    with ok obtain t where
      t: "map_of (gw calls (ClaimExtractionPrompt txt)) (u ''text'') = Some (PStr t)"
      and lim: "\<forall>l \<in> set (split_char 10 (strip t)). \<forall>g1 g2.
                  match_claim_line (strip l) = Some (g1, g2) \<longrightarrow> length g1 \<le> max_str_digits"
      by blast
    from parse_lines_within_limit [OF lim, of "txt"]
    obtain cs where "parse_lines txt (split_char 10 (strip t)) = Inr cs"
      by blast
    then have "\<exists>cs'. parse_claims_response t txt = Inr cs' \<and> cs' \<noteq> []"
      by (simp add: parse_claims_response_def fallback_extraction_nonempty)
    then show ?thesis
      using False t by (auto simp: extract_claims_def call_with_retry_def dict_item_def)
  qed
qed

theorem extract_claims_nonempty_within_limit_witness:
  "documented_response
     (fixed_gateway (ok_response (u ''no claim lines here'') 12 5 (u ''m'') (u ''stop'')) []
        (ClaimExtractionPrompt (u ''The sky is blue today''))) \<and>
   map_of (fixed_gateway (ok_response (u ''no claim lines here'') 12 5 (u ''m'') (u ''stop'')) []
        (ClaimExtractionPrompt (u ''The sky is blue today''))) (u ''text'') =
     Some (PStr (u ''no claim lines here'')) \<and>
   split_char 10 (strip (u ''no claim lines here'')) = [u ''no claim lines here''] \<and>
   match_claim_line (strip (u ''no claim lines here'')) = None \<and>
   (\<exists>cs. fst (extract_claims
             (fixed_gateway (ok_response (u ''no claim lines here'') 12 5 (u ''m'') (u ''stop'')))
             [] (u ''The sky is blue today'')) = Inr cs \<and> cs \<noteq> [])"
proof -
  let ?gw = "fixed_gateway (ok_response (u ''no claim lines here'') 12 5 (u ''m'') (u ''stop''))"
  have h: "documented_response (?gw [] (ClaimExtractionPrompt (u ''The sky is blue today'')))"
    by (simp add: documented_response_def fixed_gateway_def ok_response_def u_def)
  have t: "map_of (?gw [] (ClaimExtractionPrompt (u ''The sky is blue today''))) (u ''text'') =
      Some (PStr (u ''no claim lines here''))"
    by (simp add: fixed_gateway_def ok_response_def)
  have stripped: "strip (u ''no claim lines here'') = u ''no claim lines here''"
    by (simp add: strip_def is_space_def u_def)
  have "10 \<notin> set (u ''no claim lines here'')"
    by (simp add: u_def)
  then have lines: "split_char 10 (strip (u ''no claim lines here'')) = [u ''no claim lines here'']"
    by (simp add: stripped split_char_no_sep)
  have unmatched: "match_claim_line (strip (u ''no claim lines here'')) = None"
    unfolding stripped by (simp add: match_claim_line_def u_def)
  have "\<exists>cs. fst (extract_claims ?gw [] (u ''The sky is blue today'')) = Inr cs \<and> cs \<noteq> []"
    using extract_claims_nonempty_within_limit [of ?gw "[]" "u ''The sky is blue today''", OF h]
      t lines unmatched
    by simp
  with h t lines unmatched show ?thesis
    by simp
qed

section \<open>Properties of IntentClassifier\<close>

text \<open>
  C9, as stated, has \<open>classify_intent\<close> always return a member of the configured intent
  set. The default intent is returned without being checked against
  \<open>supported_intents\<close>: with three intents configured and no \<open>default_intent\<close> key, a
  response that names no intent yields the built-in default, which is not among the
  configured intents.
\<close>

theorem classify_intent_default_counterexample:
  "fst (classify_intent
          (init_intent_classifier
             \<lparr>cfg_supported_intents = Some [comparison_query, method_query, opinion_query],
              cfg_default_intent = None\<rparr>)
          (fixed_gateway (ok_response (u ''I cannot tell'') 9 3 (u ''m'') (u ''stop'')))
          [] (u ''What is Python?'')) = Inr factual_query \<and>
   factual_query \<notin> set (supported_intents
          (init_intent_classifier
             \<lparr>cfg_supported_intents = Some [comparison_query, method_query, opinion_query],
              cfg_default_intent = None\<rparr>))"
  by (simp add: classify_intent_def call_with_retry_def fixed_gateway_def ok_response_def
      dict_get_def dict_item_def init_intent_classifier_def parse_intent_response_def
      str_contains_def strip_def is_space_def u_def intent_patterns_def
      re_match_query_word_def match_label_value_def match_ws_then_word_def
      factual_query_def comparison_query_def method_query_def opinion_query_def)

text \<open>
  C9, amended: for every query, every classifier configuration and every gateway response
  of a documented shape, \<open>classify_intent\<close> returns a value that is a member of
  \<open>supported_intents\<close> or is \<open>default_intent\<close>; it is a member of
  \<open>supported_intents\<close> whenever \<open>default_intent\<close> is.
\<close>

theorem classify_intent_supported_or_default:
  "documented_response (gw calls (IntentClassificationPrompt query)) \<Longrightarrow>
   \<exists>i. fst (classify_intent C gw calls query) = Inr i \<and>
       (i \<in> set (supported_intents C) \<or> i = default_intent C) \<and>
       (default_intent C \<in> set (supported_intents C) \<longrightarrow> i \<in> set (supported_intents C))"
  by (auto simp: classify_intent_def call_with_retry_def documented_response_def dict_item_def
      Let_def split: option.splits pyval.splits)

theorem classify_intent_supported_or_default_witness:
  "documented_response
     (fixed_gateway (ok_response (u ''I cannot tell'') 9 3 (u ''m'') (u ''stop'')) []
        (IntentClassificationPrompt (u ''What is Python?''))) \<and>
   (\<exists>i. fst (classify_intent
             (init_intent_classifier
                \<lparr>cfg_supported_intents = Some [factual_query, comparison_query],
                 cfg_default_intent = Some factual_query\<rparr>)
             (fixed_gateway (ok_response (u ''I cannot tell'') 9 3 (u ''m'') (u ''stop'')))
             [] (u ''What is Python?'')) = Inr i \<and>
        i \<in> set [factual_query, comparison_query])"
proof -
  have h: "documented_response
     (fixed_gateway (ok_response (u ''I cannot tell'') 9 3 (u ''m'') (u ''stop'')) []
        (IntentClassificationPrompt (u ''What is Python?'')))"
    by (simp add: documented_response_def fixed_gateway_def ok_response_def u_def)
  show ?thesis
    using h classify_intent_supported_or_default
      [of "fixed_gateway (ok_response (u ''I cannot tell'') 9 3 (u ''m'') (u ''stop''))" "[]"
          "u ''What is Python?''"
          "init_intent_classifier
             \<lparr>cfg_supported_intents = Some [factual_query, comparison_query],
              cfg_default_intent = Some factual_query\<rparr>"]
    by (auto simp: init_intent_classifier_def)
qed

lemma template_for_unknown:
  "intent \<notin> {factual_query, comparison_query, method_query, opinion_query} \<Longrightarrow>
   template_for (init_intent_classifier config) intent = Inl (KeyError intent)"
  by (simp add: template_for_def init_intent_classifier_def builtin_templates_def)

lemma generate_retrieval_prompt_unknown:
  "intent \<notin> {factual_query, comparison_query, method_query, opinion_query} \<Longrightarrow>
   generate_retrieval_prompt (init_intent_classifier config) gw calls query intent =
     (Inl (KeyError intent), calls)"
  by (simp add: generate_retrieval_prompt_def template_for_unknown)

text \<open>
  C10: for every intent string that is not one of the four built-in template keys,
  \<open>generate_retrieval_prompt\<close> raises \<open>KeyError\<close> and returns no reformulated query
  (and issues no gateway call); with such an intent the evidence-retrieval stage raises
  \<open>KeyError\<close> on the first claim, whatever the claims are, so the run is aborted.
\<close>

theorem generate_retrieval_prompt_key_error:
  "intent \<notin> {factual_query, comparison_query, method_query, opinion_query} \<Longrightarrow>
   generate_retrieval_prompt (init_intent_classifier config) gw calls query intent =
     (Inl (KeyError intent), calls) \<and>
   (claims \<noteq> [] \<longrightarrow>
      (\<exists>k. retrieve_evidence_for_claims (init_intent_classifier config) cfg float_sub coll gw clock
              calls query claims intent = (Inl (KeyError k), calls)))"
proof (intro conjI impI)
  assume unknown: "intent \<notin> {factual_query, comparison_query, method_query, opinion_query}"
  show "generate_retrieval_prompt (init_intent_classifier config) gw calls query intent =
     (Inl (KeyError intent), calls)"
    using unknown by (rule generate_retrieval_prompt_unknown)
  assume "claims \<noteq> []"
  then obtain c cs where claims: "claims = c # cs"
    by (cases claims) auto
  show "\<exists>k. retrieve_evidence_for_claims (init_intent_classifier config) cfg float_sub coll gw clock
              calls query claims intent = (Inl (KeyError k), calls)"
  proof (cases "claim_id c")
    case None
    then show ?thesis
      by (simp add: claims retrieve_evidence_for_claims_def)
  next
    case (Some cid)
    then show ?thesis
      using generate_retrieval_prompt_unknown [OF unknown, of config gw calls query]
      by (simp add: claims retrieve_evidence_for_claims_def build_retrieval_query_def)
  qed
qed

theorem generate_retrieval_prompt_key_error_witness:
  "u ''general'' \<notin> {factual_query, comparison_query, method_query, opinion_query} \<and>
   generate_retrieval_prompt
     (init_intent_classifier
        \<lparr>cfg_supported_intents = Some [u ''general''], cfg_default_intent = Some (u ''general'')\<rparr>)
     failing_gateway [] (u ''What is Python?'') (u ''general'') =
     (Inl (KeyError (u ''general'')), []) \<and>
   (\<exists>k. retrieve_evidence_for_claims
          (init_intent_classifier
             \<lparr>cfg_supported_intents = Some [u ''general''], cfg_default_intent = Some (u ''general'')\<rparr>)
          \<lparr>max_retrieved_docs = 5, similarity_threshold = 3 / 4\<rparr> rational_sub empty_collection
          failing_gateway epoch_clock [] (u ''What is Python?'')
          [\<lparr>claim_id = Some (u ''claim_1''), claim_text = u ''Python is compiled'',
            confidence = 9 / 10, atomic = True, original_position = Some 0\<rparr>]
          (u ''general'') = (Inl (KeyError k), []))"
proof -
  have h: "u ''general'' \<notin> {factual_query, comparison_query, method_query, opinion_query}"
    by (simp add: u_def factual_query_def comparison_query_def method_query_def
        opinion_query_def)
  show ?thesis
    using h generate_retrieval_prompt_key_error [OF h,
        of "\<lparr>cfg_supported_intents = Some [u ''general''], cfg_default_intent = Some (u ''general'')\<rparr>"
           failing_gateway "[]" "u ''What is Python?''"
           "[\<lparr>claim_id = Some (u ''claim_1''), claim_text = u ''Python is compiled'',
              confidence = 9 / 10, atomic = True, original_position = Some 0\<rparr>]"
           "\<lparr>max_retrieved_docs = 5, similarity_threshold = 3 / 4\<rparr>" rational_sub
           empty_collection epoch_clock]
    by simp
qed

section \<open>Properties of EvidenceVerifier\<close>

text \<open>
  C3: a gateway error of the documented shape \<open>{error: true, text: diagnostic}\<close> should
  give an error verification. \<open>verify_claim\<close> reads \<open>response['error_message']\<close>, a key
  that the documented shape does not have: on such a response it raises \<open>KeyError\<close> and
  returns no verification.
\<close>

theorem verify_claim_error_response_raises:
  "verify_claim py_str loads failing_gateway [] (u ''1970-01-01T00:00:00'') (u ''Python is compiled'')
     [] (u ''What is Python?'') factual_query =
   (Inl (KeyError (u ''error_message'')),
    [VerificationPrompt (u ''Python is compiled'') [] (u ''What is Python?'') factual_query])"
  by (simp add: verify_claim_def call_with_retry_def failing_gateway_def error_response_def
      dict_get_def dict_item_def u_def)

lemma verify_claim_calls:
  "snd (verify_claim py_str loads gw calls now clm ev query intent) =
     calls @ [VerificationPrompt clm ev query intent]"
  by (simp add: verify_claim_def call_with_retry_def split: sum.splits pyval.splits)

text \<open>
  C2, as stated, has every verdict outside the four values treated as a parse failure.
  No step of \<open>_parse_verification_response\<close> looks at the value of \<open>verdict\<close>: a
  response object with the verdict \<open>MAYBE\<close> is returned with that verdict. (The
  decoder of the run gives what \<open>json.loads\<close> gives on the text of the response.)
\<close>

theorem verify_claim_verdict_counterexample:
  "fst (verify_claim plain_str json_loads_table maybe_gateway [] (u ''1970-01-01T00:00:00'')
          (u ''Python is compiled'') [] (u ''What is Python?'') factual_query) =
     Inr [(u ''verdict'', PStr (u ''MAYBE'')),
          (u ''confidence'', PFloat (Finite (1 / 2))),
          (u ''claim'', PStr (u ''Python is compiled'')),
          (u ''intent'', PStr factual_query),
          (u ''timestamp'', PStr (u ''1970-01-01T00:00:00'')),
          (u ''supporting_evidence'', PList []),
          (u ''contradicting_evidence'', PList [])] \<and>
   u ''MAYBE'' \<notin> {u ''SUPPORTED'', u ''CONTRADICTED'', u ''PARTIALLY_SUPPORTED'', u ''UNVERIFIED''}"
  by (simp add: verify_claim_def call_with_retry_def maybe_gateway_def fixed_gateway_def
      ok_response_def dict_get_def dict_item_def parse_verification_response_def
      load_response_json_def re_search_braces_def json_loads_table_def py_contains_def
      ensure_list_field_def u_def)

lemma map_of_ensure_list_field:
  "k \<noteq> f \<Longrightarrow> map_of (ensure_list_field f d) k = map_of d k"
  by (simp add: ensure_list_field_def update_conv' split: option.splits pyval.splits)

lemma parse_verification_response_fallback:
  "load_response_json loads t = Inl JSONDecodeError \<or>
   (load_response_json loads t = Inr (PDict d) \<and>
    (map_of d (u ''verdict'') = None \<or> map_of d (u ''confidence'') = None)) \<Longrightarrow>
   parse_verification_response loads now t clm intent =
     Inr (create_fallback_result now clm intent t)"
  by (auto simp: parse_verification_response_def py_contains_def split: bool.splits)

lemma parse_verification_response_object:
  assumes "load_response_json loads t = Inr (PDict d)"
    and "map_of d (u ''verdict'') = Some v" and "map_of d (u ''confidence'') = Some c"
  shows "\<exists>r. parse_verification_response loads now t clm intent = Inr r \<and>
             map_of r (u ''verdict'') = Some v \<and> map_of r (u ''confidence'') = Some c"
proof -
  have neq: "u ''verdict'' \<noteq> u ''contradicting_evidence''" "u ''verdict'' \<noteq> u ''supporting_evidence''"
    "u ''verdict'' \<noteq> u ''timestamp''" "u ''verdict'' \<noteq> u ''intent''" "u ''verdict'' \<noteq> u ''claim''"
    "u ''confidence'' \<noteq> u ''contradicting_evidence''" "u ''confidence'' \<noteq> u ''supporting_evidence''"
    "u ''confidence'' \<noteq> u ''timestamp''" "u ''confidence'' \<noteq> u ''intent''" "u ''confidence'' \<noteq> u ''claim''"
    by (simp_all add: u_def)
  show ?thesis
    using assms neq
    by (simp add: parse_verification_response_def py_contains_def map_of_ensure_list_field
        update_conv')
qed

text \<open>
  C2, amended: for every gateway response that is not an error response and carries a
  text, \<open>verify_claim\<close> returns the fallback verification (verdict \<open>UNVERIFIED\<close>,
  confidence 0.3) when decoding the JSON part of the text (from its first opening brace to
  its last closing brace, or the whole text when there is no such part) raises
  \<open>JSONDecodeError\<close>, or the decoded object lacks \<open>verdict\<close> or \<open>confidence\<close>; when the
  decoded value is an object with both fields, it returns a verification that carries the
  verdict and the confidence exactly as the model emitted them, whether or not the verdict
  is one of the four values. This holds for every decoder.
\<close>

theorem verify_claim_verdict:
  assumes "\<not> truthy (dict_get (gw calls (VerificationPrompt clm ev query intent)) (u ''error''))"
    and "map_of (gw calls (VerificationPrompt clm ev query intent)) (u ''text'') = Some (PStr t)"
  shows "(load_response_json loads t = Inl JSONDecodeError \<or>
          (\<exists>d. load_response_json loads t = Inr (PDict d) \<and>
               (map_of d (u ''verdict'') = None \<or> map_of d (u ''confidence'') = None)) \<longrightarrow>
            fst (verify_claim py_str loads gw calls now clm ev query intent) =
              Inr (create_fallback_result now clm intent t) \<and>
            dict_get (create_fallback_result now clm intent t) (u ''verdict'') = PStr (u ''UNVERIFIED'') \<and>
            dict_get (create_fallback_result now clm intent t) (u ''confidence'') = PFloat (Finite (3 / 10))) \<and>
         (\<forall>d v c. load_response_json loads t = Inr (PDict d) \<and>
                  map_of d (u ''verdict'') = Some v \<and> map_of d (u ''confidence'') = Some c \<longrightarrow>
            (\<exists>r. fst (verify_claim py_str loads gw calls now clm ev query intent) = Inr r \<and>
                 dict_get r (u ''verdict'') = v \<and> dict_get r (u ''confidence'') = c))"
proof -
  have run: "fst (verify_claim py_str loads gw calls now clm ev query intent) =
      parse_verification_response loads now t clm intent"
    using assms by (simp add: verify_claim_def call_with_retry_def dict_item_def)
  have fb: "dict_get (create_fallback_result now clm intent t) (u ''verdict'') = PStr (u ''UNVERIFIED'')"
    "dict_get (create_fallback_result now clm intent t) (u ''confidence'') = PFloat (Finite (3 / 10))"
    by (simp_all add: create_fallback_result_def dict_get_def u_def)
  show ?thesis
  proof (intro conjI impI allI)
    assume "load_response_json loads t = Inl JSONDecodeError \<or>
          (\<exists>d. load_response_json loads t = Inr (PDict d) \<and>
               (map_of d (u ''verdict'') = None \<or> map_of d (u ''confidence'') = None))"
    then show "fst (verify_claim py_str loads gw calls now clm ev query intent) =
              Inr (create_fallback_result now clm intent t)"
      using parse_verification_response_fallback [of loads t _ now clm intent] by (auto simp: run)
  next
    show "dict_get (create_fallback_result now clm intent t) (u ''verdict'') = PStr (u ''UNVERIFIED'')"
      by (rule fb)
  next
    show "dict_get (create_fallback_result now clm intent t) (u ''confidence'') = PFloat (Finite (3 / 10))"
      by (rule fb)
  next
    fix d v c
    assume "load_response_json loads t = Inr (PDict d) \<and>
                  map_of d (u ''verdict'') = Some v \<and> map_of d (u ''confidence'') = Some c"
    then show "\<exists>r. fst (verify_claim py_str loads gw calls now clm ev query intent) = Inr r \<and>
                 dict_get r (u ''verdict'') = v \<and> dict_get r (u ''confidence'') = c"
      using parse_verification_response_object [of loads t d v c now clm intent]
      by (auto simp: run dict_get_def)
  qed
qed

theorem verify_claim_verdict_witness:
  "\<not> truthy (dict_get (maybe_gateway [] (VerificationPrompt (u ''Python is compiled'') []
        (u ''What is Python?'') factual_query)) (u ''error'')) \<and>
   map_of (maybe_gateway [] (VerificationPrompt (u ''Python is compiled'') []
        (u ''What is Python?'') factual_query)) (u ''text'') =
     Some (PStr (u ''{\"verdict\": \"MAYBE\", \"confidence\": 0.5}'')) \<and>
   load_response_json json_loads_table (u ''{\"verdict\": \"MAYBE\", \"confidence\": 0.5}'') =
     Inr (PDict [(u ''verdict'', PStr (u ''MAYBE'')), (u ''confidence'', PFloat (Finite (1 / 2)))]) \<and>
   (\<exists>r. fst (verify_claim plain_str json_loads_table maybe_gateway [] (u ''1970-01-01T00:00:00'')
               (u ''Python is compiled'') [] (u ''What is Python?'') factual_query) = Inr r \<and>
        dict_get r (u ''verdict'') = PStr (u ''MAYBE'') \<and>
        dict_get r (u ''confidence'') = PFloat (Finite (1 / 2))) \<and>
   \<not> truthy (dict_get (prose_gateway [] (VerificationPrompt (u ''Python is compiled'') []
        (u ''What is Python?'') factual_query)) (u ''error'')) \<and>
   map_of (prose_gateway [] (VerificationPrompt (u ''Python is compiled'') []
        (u ''What is Python?'') factual_query)) (u ''text'') = Some (PStr (u ''I cannot tell'')) \<and>
   load_response_json json_loads_table (u ''I cannot tell'') = Inl JSONDecodeError \<and>
   fst (verify_claim plain_str json_loads_table prose_gateway [] (u ''1970-01-01T00:00:00'')
          (u ''Python is compiled'') [] (u ''What is Python?'') factual_query) =
     Inr (create_fallback_result (u ''1970-01-01T00:00:00'') (u ''Python is compiled'')
            factual_query (u ''I cannot tell'')) \<and>
   dict_get (create_fallback_result (u ''1970-01-01T00:00:00'') (u ''Python is compiled'')
               factual_query (u ''I cannot tell'')) (u ''verdict'') = PStr (u ''UNVERIFIED'') \<and>
   dict_get (create_fallback_result (u ''1970-01-01T00:00:00'') (u ''Python is compiled'')
               factual_query (u ''I cannot tell'')) (u ''confidence'') = PFloat (Finite (3 / 10))"
proof -
  let ?req = "VerificationPrompt (u ''Python is compiled'') [] (u ''What is Python?'') factual_query"
  let ?t = "u ''{\"verdict\": \"MAYBE\", \"confidence\": 0.5}''"
  let ?d = "[(u ''verdict'', PStr (u ''MAYBE'')), (u ''confidence'', PFloat (Finite (1 / 2)))]"
  let ?p = "u ''I cannot tell''"
  have h1: "\<not> truthy (dict_get (maybe_gateway [] ?req) (u ''error''))"
    by (simp add: maybe_gateway_def fixed_gateway_def ok_response_def dict_get_def u_def)
  have h2: "map_of (maybe_gateway [] ?req) (u ''text'') = Some (PStr ?t)"
    by (simp add: maybe_gateway_def fixed_gateway_def ok_response_def)
  have decoded: "load_response_json json_loads_table ?t = Inr (PDict ?d)"
    by (simp add: load_response_json_def re_search_braces_def json_loads_table_def u_def)
  have fields: "map_of ?d (u ''verdict'') = Some (PStr (u ''MAYBE''))"
    "map_of ?d (u ''confidence'') = Some (PFloat (Finite (1 / 2)))"
    by (simp_all add: u_def)
  from verify_claim_verdict [of maybe_gateway "[]" "u ''Python is compiled''" "[]"
      "u ''What is Python?''" factual_query ?t json_loads_table plain_str
      "u ''1970-01-01T00:00:00''", OF h1 h2]
  have object: "\<exists>r. fst (verify_claim plain_str json_loads_table maybe_gateway []
               (u ''1970-01-01T00:00:00'') (u ''Python is compiled'') [] (u ''What is Python?'')
               factual_query) = Inr r \<and>
        dict_get r (u ''verdict'') = PStr (u ''MAYBE'') \<and>
        dict_get r (u ''confidence'') = PFloat (Finite (1 / 2))"
    using decoded fields by blast
  have k1: "\<not> truthy (dict_get (prose_gateway [] ?req) (u ''error''))"
    by (simp add: prose_gateway_def fixed_gateway_def ok_response_def dict_get_def u_def)
  have k2: "map_of (prose_gateway [] ?req) (u ''text'') = Some (PStr ?p)"
    by (simp add: prose_gateway_def fixed_gateway_def ok_response_def)
  have undecoded: "load_response_json json_loads_table ?p = Inl JSONDecodeError"
    by (simp add: load_response_json_def re_search_braces_def json_loads_table_def u_def)
  from verify_claim_verdict [of prose_gateway "[]" "u ''Python is compiled''" "[]"
      "u ''What is Python?''" factual_query ?p json_loads_table plain_str
      "u ''1970-01-01T00:00:00''", OF k1 k2]
  have fallback: "fst (verify_claim plain_str json_loads_table prose_gateway []
          (u ''1970-01-01T00:00:00'') (u ''Python is compiled'') [] (u ''What is Python?'')
          factual_query) =
     Inr (create_fallback_result (u ''1970-01-01T00:00:00'') (u ''Python is compiled'')
            factual_query ?p) \<and>
   dict_get (create_fallback_result (u ''1970-01-01T00:00:00'') (u ''Python is compiled'')
               factual_query ?p) (u ''verdict'') = PStr (u ''UNVERIFIED'') \<and>
   dict_get (create_fallback_result (u ''1970-01-01T00:00:00'') (u ''Python is compiled'')
               factual_query ?p) (u ''confidence'') = PFloat (Finite (3 / 10))"
    using undecoded by blast
  from h1 h2 decoded object k1 k2 undecoded fallback show ?thesis
    by blast
qed

lemma batch_verify_loop_returns:
  "batch_verify_loop py_str loads gw clock emap query intent i calls cs = (Inr vs, calls') \<Longrightarrow>
   length vs = length cs \<and>
   calls' = calls @ requests_for emap query intent cs \<and>
   (\<forall>n < length cs. \<forall>cid. claim_id (cs ! n) = Some cid \<and> map_of emap cid = None \<longrightarrow>
      vs ! n = unverified_result cid (claim_text (cs ! n)))"
proof (induction cs arbitrary: i calls vs calls')
  case Nil
  then show ?case by (simp add: requests_for_def)
next
  case (Cons c cs)
  from Cons.prems obtain cid where cid: "claim_id c = Some cid"
    by (cases "claim_id c") auto
  show ?case
  proof (cases "map_of emap cid")
    case None
    from Cons.prems cid None obtain vs0 where
      rec: "batch_verify_loop py_str loads gw clock emap query intent (i + 1) calls cs = (Inr vs0, calls')"
      and vs: "vs = unverified_result cid (claim_text c) # vs0"
      by (auto split: prod.splits sum.splits)
    from Cons.IH [OF rec] have ih:
      "length vs0 = length cs" "calls' = calls @ requests_for emap query intent cs"
      "\<forall>n < length cs. \<forall>cid. claim_id (cs ! n) = Some cid \<and> map_of emap cid = None \<longrightarrow>
          vs0 ! n = unverified_result cid (claim_text (cs ! n))"
      by simp_all
    have req: "requests_for emap query intent (c # cs) = requests_for emap query intent cs"
      using cid None by (simp add: requests_for_def)
    show ?thesis
      using ih cid by (auto simp: vs req nth_Cons split: nat.splits)
  next
    case (Some info)
    from Cons.prems cid Some obtain v c1 vs0 where
      ver: "verify_claim py_str loads gw calls (clock i) (claim_text c) (evidence info) query intent =
              (Inr v, c1)"
      and rec: "batch_verify_loop py_str loads gw clock emap query intent (i + 1) c1 cs = (Inr vs0, calls')"
      and vs: "vs = AList.update (u ''evidence_count'') (PInt (int (length (evidence info))))
                 (AList.update (u ''claim_id'') (PStr cid) v) # vs0"
      by (auto split: prod.splits sum.splits)
    have c1: "c1 = calls @ [VerificationPrompt (claim_text c) (evidence info) query intent]"
      using verify_claim_calls [of py_str loads gw calls "clock i" "claim_text c" "evidence info" query intent]
      by (simp add: ver)
    from Cons.IH [OF rec] have ih:
      "length vs0 = length cs" "calls' = c1 @ requests_for emap query intent cs"
      "\<forall>n < length cs. \<forall>cid. claim_id (cs ! n) = Some cid \<and> map_of emap cid = None \<longrightarrow>
          vs0 ! n = unverified_result cid (claim_text (cs ! n))"
      by simp_all
    have req: "requests_for emap query intent (c # cs) =
        VerificationPrompt (claim_text c) (evidence info) query intent #
        requests_for emap query intent cs"
      using cid Some by (simp add: requests_for_def)
    show ?thesis
      using ih cid Some by (auto simp: vs req c1 nth_Cons split: nat.splits)
  qed
qed

lemma batch_verify_loop_all_absent:
  "\<forall>c \<in> set cs. \<exists>cid. claim_id c = Some cid \<and> map_of emap cid = None \<Longrightarrow>
   \<exists>vs. batch_verify_loop py_str loads gw clock emap query intent i calls cs = (Inr vs, calls) \<and>
        length vs = length cs \<and>
        (\<forall>v \<in> set vs. \<exists>cid clm. v = unverified_result cid clm)"
proof (induction cs arbitrary: i)
  case Nil
  then show ?case by simp
next
  case (Cons c cs)
  from Cons.prems obtain cid where cid: "claim_id c = Some cid" "map_of emap cid = None"
    by auto
  from Cons.prems have "\<forall>c \<in> set cs. \<exists>cid. claim_id c = Some cid \<and> map_of emap cid = None"
    by simp
  from Cons.IH [OF this, of "i + 1"] obtain vs0 where
    rec: "batch_verify_loop py_str loads gw clock emap query intent (i + 1) calls cs = (Inr vs0, calls)"
    and len: "length vs0 = length cs"
    and all: "\<forall>v \<in> set vs0. \<exists>cid clm. v = unverified_result cid clm"
    by blast
  show ?case
    using cid rec len all by auto
qed

lemma unverified_result_fields:
  "dict_get (unverified_result cid clm) (u ''verdict'') = PStr (u ''UNVERIFIED'')"
  "dict_get (unverified_result cid clm) (u ''confidence'') = PFloat (Finite 0)"
  by (simp_all add: unverified_result_def dict_get_def u_def)

text \<open>
  C1: a claim for which no evidence was retrieved should be verified as \<open>UNVERIFIED\<close>
  with confidence 0.0 and without a gateway call; the comment on the \<open>else\<close> branch of
  \<open>batch_verify\<close> says that the branch is the one for a claim without retrieved
  evidence. The test of that branch is only whether the claim id is a key of the evidence
  map, and retrieval enters every claim into the map: over an empty knowledge base the
  claim below gets an entry with an empty evidence list, \<open>batch_verify\<close> sends it to
  the gateway, and the verdict returned is the gateway's, \<open>SUPPORTED\<close> with confidence
  0.9.
\<close>

theorem batch_verify_empty_evidence_calls_gateway:
  "retrieve_evidence_for_claims (init_intent_classifier demo_config) demo_retrieval_config
     rational_sub empty_collection supporting_gateway epoch_clock [] (u ''What is Python?'') [demo_claim]
     factual_query = (Inr demo_evidence_map, []) \<and>
   map_of demo_evidence_map (u ''claim_1'') \<noteq> None \<and>
   batch_verify plain_str json_loads_table supporting_gateway epoch_clock [] [demo_claim] demo_evidence_map
     (u ''What is Python?'') factual_query =
     (Inr [[(u ''verdict'', PStr (u ''SUPPORTED'')),
            (u ''confidence'', PFloat (Finite (9 / 10))),
            (u ''claim'', PStr (u ''Python is compiled'')),
            (u ''intent'', PStr factual_query),
            (u ''timestamp'', PStr (u ''1970-01-01T00:00:00'')),
            (u ''supporting_evidence'', PList []),
            (u ''contradicting_evidence'', PList []),
            (u ''claim_id'', PStr (u ''claim_1'')),
            (u ''evidence_count'', PInt 0)]],
      [VerificationPrompt (u ''Python is compiled'') [] (u ''What is Python?'') factual_query])"
proof -
  have retrieval: "retrieve_evidence_for_claims (init_intent_classifier demo_config)
     demo_retrieval_config rational_sub empty_collection supporting_gateway epoch_clock []
     (u ''What is Python?'') [demo_claim] factual_query = (Inr demo_evidence_map, [])"
    by (simp add: retrieve_evidence_for_claims_def demo_claim_def build_retrieval_query_def
        generate_retrieval_prompt_def template_for_def init_intent_classifier_def demo_config_def
        builtin_templates_def format_template_def search_def empty_collection_def
        demo_retrieval_config_def demo_evidence_map_def epoch_clock_def
        factual_query_def comparison_query_def)
  have present: "map_of demo_evidence_map (u ''claim_1'') \<noteq> None"
    by (simp add: demo_evidence_map_def)
  have verification: "batch_verify plain_str json_loads_table supporting_gateway epoch_clock [] [demo_claim]
     demo_evidence_map (u ''What is Python?'') factual_query =
     (Inr [[(u ''verdict'', PStr (u ''SUPPORTED'')),
            (u ''confidence'', PFloat (Finite (9 / 10))),
            (u ''claim'', PStr (u ''Python is compiled'')),
            (u ''intent'', PStr factual_query),
            (u ''timestamp'', PStr (u ''1970-01-01T00:00:00'')),
            (u ''supporting_evidence'', PList []),
            (u ''contradicting_evidence'', PList []),
            (u ''claim_id'', PStr (u ''claim_1'')),
            (u ''evidence_count'', PInt 0)]],
      [VerificationPrompt (u ''Python is compiled'') [] (u ''What is Python?'') factual_query])"
    by (simp add: batch_verify_def demo_claim_def demo_evidence_map_def epoch_clock_def
        verify_claim_def call_with_retry_def supporting_gateway_def fixed_gateway_def
        ok_response_def dict_get_def dict_item_def parse_verification_response_def
        load_response_json_def re_search_braces_def json_loads_table_def py_contains_def
        ensure_list_field_def u_def)
  show ?thesis
    using retrieval present verification by simp
qed

text \<open>
  What holds of \<open>batch_verify\<close> for the claims whose id is absent from the evidence
  map: the verification produced for such a claim is the fixed unverified one, with
  verdict \<open>UNVERIFIED\<close> and confidence 0.0, and no gateway call is issued for it: the
  requests that \<open>batch_verify\<close> issues are exactly those of the claims whose id is a
  key of the map, in order. When every claim is absent from the map, \<open>batch_verify\<close>
  returns without any call.
\<close>

theorem batch_verify_absent_claims:
  "(batch_verify py_str loads gw clock calls cs emap query intent = (Inr vs, calls') \<longrightarrow>
      length vs = length cs \<and>
      calls' = calls @ requests_for emap query intent cs \<and>
      (\<forall>n < length cs. \<forall>cid. claim_id (cs ! n) = Some cid \<and> map_of emap cid = None \<longrightarrow>
         dict_get (vs ! n) (u ''verdict'') = PStr (u ''UNVERIFIED'') \<and>
         dict_get (vs ! n) (u ''confidence'') = PFloat (Finite 0))) \<and>
   ((\<forall>c \<in> set cs. \<exists>cid. claim_id c = Some cid \<and> map_of emap cid = None) \<longrightarrow>
      (\<exists>ws. batch_verify py_str loads gw clock calls cs emap query intent = (Inr ws, calls) \<and>
            length ws = length cs \<and>
            (\<forall>w \<in> set ws. dict_get w (u ''verdict'') = PStr (u ''UNVERIFIED'') \<and>
                           dict_get w (u ''confidence'') = PFloat (Finite 0))))"
proof (intro conjI impI)
  assume run: "batch_verify py_str loads gw clock calls cs emap query intent = (Inr vs, calls')"
  then have loop: "batch_verify_loop py_str loads gw clock emap query intent 0 calls cs = (Inr vs, calls')"
    by (simp add: batch_verify_def)
  from batch_verify_loop_returns [OF loop]
  show "length vs = length cs" and "calls' = calls @ requests_for emap query intent cs"
    by simp_all
  from batch_verify_loop_returns [OF loop]
  show "\<forall>n < length cs. \<forall>cid. claim_id (cs ! n) = Some cid \<and> map_of emap cid = None \<longrightarrow>
         dict_get (vs ! n) (u ''verdict'') = PStr (u ''UNVERIFIED'') \<and>
         dict_get (vs ! n) (u ''confidence'') = PFloat (Finite 0)"
    by (auto simp: unverified_result_fields)
next
  assume "\<forall>c \<in> set cs. \<exists>cid. claim_id c = Some cid \<and> map_of emap cid = None"
  from batch_verify_loop_all_absent [OF this, of py_str loads gw clock query intent 0 calls]
  obtain ws where
    run: "batch_verify_loop py_str loads gw clock emap query intent 0 calls cs = (Inr ws, calls)"
    and len: "length ws = length cs"
    and all: "\<forall>w \<in> set ws. \<exists>cid clm. w = unverified_result cid clm"
    by blast
  have fields: "\<forall>w \<in> set ws. dict_get w (u ''verdict'') = PStr (u ''UNVERIFIED'') \<and>
                           dict_get w (u ''confidence'') = PFloat (Finite 0)"
  proof
    fix w
    assume "w \<in> set ws"
    with all obtain cid clm where "w = unverified_result cid clm"
      by blast
    then show "dict_get w (u ''verdict'') = PStr (u ''UNVERIFIED'') \<and>
               dict_get w (u ''confidence'') = PFloat (Finite 0)"
      by (simp add: unverified_result_fields)
  qed
  show "\<exists>ws. batch_verify py_str loads gw clock calls cs emap query intent = (Inr ws, calls) \<and>
            length ws = length cs \<and>
            (\<forall>w \<in> set ws. dict_get w (u ''verdict'') = PStr (u ''UNVERIFIED'') \<and>
                           dict_get w (u ''confidence'') = PFloat (Finite 0))"
    using run len fields by (simp add: batch_verify_def)
qed

theorem batch_verify_absent_claims_witness:
  "claim_id demo_claim = Some (u ''claim_1'') \<and>
   map_of ([] :: evidence_map) (u ''claim_1'') = None \<and>
   batch_verify plain_str json_loads_table supporting_gateway epoch_clock [] [demo_claim] []
     (u ''What is Python?'') factual_query =
     (Inr [unverified_result (u ''claim_1'') (u ''Python is compiled'')], []) \<and>
   dict_get (unverified_result (u ''claim_1'') (u ''Python is compiled'')) (u ''verdict'') =
     PStr (u ''UNVERIFIED'') \<and>
   dict_get (unverified_result (u ''claim_1'') (u ''Python is compiled'')) (u ''confidence'') =
     PFloat (Finite 0)"
proof -
  have run: "batch_verify plain_str json_loads_table supporting_gateway epoch_clock [] [demo_claim] []
     (u ''What is Python?'') factual_query =
     (Inr [unverified_result (u ''claim_1'') (u ''Python is compiled'')], [])"
    by (simp add: batch_verify_def demo_claim_def)
  have absent: "claim_id demo_claim = Some (u ''claim_1'')"
    "map_of ([] :: evidence_map) (u ''claim_1'') = None"
    by (simp_all add: demo_claim_def)
  show ?thesis
    using run absent
      batch_verify_absent_claims [of plain_str json_loads_table supporting_gateway epoch_clock "[]"
        "[demo_claim]" "[]" "u ''What is Python?''" factual_query
        "[unverified_result (u ''claim_1'') (u ''Python is compiled'')]" "[]"]
    by (simp add: unverified_result_fields)
qed

section \<open>Properties of evidence retrieval\<close>

lemma length_alist_update:
  "length (AList.update k v al) = (if k \<in> fst ` set al then length al else Suc (length al))"
  by (induction al) auto

lemma retrieve_loop_keys:
  "retrieve_loop C cfg float_sub coll gw clock query intent i emap calls cs = (Inr m, calls') \<Longrightarrow>
   (\<forall>c \<in> set cs. claim_id c \<noteq> None) \<and>
   fst ` set m = fst ` set emap \<union> {cid. Some cid \<in> claim_id ` set cs} \<and>
   (distinct (map fst emap) \<longrightarrow> distinct (map fst m)) \<and>
   (distinct (map claim_id cs) \<and> (\<forall>c \<in> set cs. \<forall>cid. claim_id c = Some cid \<longrightarrow> cid \<notin> fst ` set emap) \<longrightarrow>
      length m = length emap + length cs)"
proof (induction cs arbitrary: i emap calls)
  case Nil
  then show ?case by simp
next
  case (Cons c cs)
  from Cons.prems obtain cid where cid: "claim_id c = Some cid"
    by (cases "claim_id c") auto
  from Cons.prems cid obtain rq c1 ev where
    rec: "retrieve_loop C cfg float_sub coll gw clock query intent (i + 1)
            (AList.update cid \<lparr>ev_claim = claim_text c, retrieval_query = rq, evidence = ev,
                                retrieval_timestamp = clock i\<rparr> emap) c1 cs = (Inr m, calls')"
    by (auto split: prod.splits sum.splits)
  let ?emap' = "AList.update cid \<lparr>ev_claim = claim_text c, retrieval_query = rq, evidence = ev,
                                retrieval_timestamp = clock i\<rparr> emap"
  from Cons.IH [OF rec] have ih:
    "\<forall>c \<in> set cs. claim_id c \<noteq> None"
    "fst ` set m = fst ` set ?emap' \<union> {cid. Some cid \<in> claim_id ` set cs}"
    "distinct (map fst ?emap') \<longrightarrow> distinct (map fst m)"
    "distinct (map claim_id cs) \<and>
       (\<forall>c \<in> set cs. \<forall>cid. claim_id c = Some cid \<longrightarrow> cid \<notin> fst ` set ?emap') \<longrightarrow>
     length m = length ?emap' + length cs"
    by simp_all
  have keys: "fst ` set ?emap' = insert cid (fst ` set emap)"
    by (simp add: dom_update)
  have ids: "{k. Some k \<in> claim_id ` set (c # cs)} = insert cid {k. Some k \<in> claim_id ` set cs}"
    using cid by auto
  have 1: "\<forall>c' \<in> set (c # cs). claim_id c' \<noteq> None"
    using ih(1) cid by simp
  have 2: "fst ` set m = fst ` set emap \<union> {k. Some k \<in> claim_id ` set (c # cs)}"
    unfolding ids using ih(2) by (simp add: keys)
  have 3: "distinct (map fst emap) \<longrightarrow> distinct (map fst m)"
    using ih(3) by (simp add: distinct_update)
  have 4: "distinct (map claim_id (c # cs)) \<and>
       (\<forall>c' \<in> set (c # cs). \<forall>k. claim_id c' = Some k \<longrightarrow> k \<notin> fst ` set emap) \<longrightarrow>
     length m = length emap + length (c # cs)"
  proof
    assume a: "distinct (map claim_id (c # cs)) \<and>
       (\<forall>c' \<in> set (c # cs). \<forall>k. claim_id c' = Some k \<longrightarrow> k \<notin> fst ` set emap)"
    then have fresh: "cid \<notin> fst ` set emap"
      using cid by simp
    from a cid have notin: "\<forall>c' \<in> set cs. claim_id c' \<noteq> Some cid"
      by (auto simp: image_iff)
    have "\<forall>c' \<in> set cs. \<forall>k. claim_id c' = Some k \<longrightarrow> k \<notin> fst ` set ?emap'"
      using a notin by (auto simp: keys)
    with a ih(4) have "length m = length ?emap' + length cs"
      by simp
    then show "length m = length emap + length (c # cs)"
      using fresh by (simp add: length_alist_update)
  qed
  from 1 2 3 4 show ?case by blast
qed

lemma retrieve_loop_entries:
  "retrieve_loop C cfg float_sub coll gw clock query intent i emap calls cs = (Inr m, calls') \<Longrightarrow>
   (\<forall>k. Some k \<notin> claim_id ` set cs \<longrightarrow> map_of m k = map_of emap k) \<and>
   (\<forall>n < length cs. \<forall>cid.
      claim_id (cs ! n) = Some cid \<and> Some cid \<notin> claim_id ` set (drop (Suc n) cs) \<longrightarrow>
      (\<exists>info calls_n calls_n'.
         map_of m cid = Some info \<and> ev_claim info = claim_text (cs ! n) \<and>
         retrieval_timestamp info = clock (i + n) \<and>
         build_retrieval_query C gw calls_n query (claim_text (cs ! n)) intent =
           (Inr (retrieval_query info), calls_n') \<and>
         search float_sub coll (retrieval_query info) (max_retrieved_docs cfg)
           (similarity_threshold cfg) = Inr (evidence info)))"
proof (induction cs arbitrary: i emap calls)
  case Nil
  then show ?case by simp
next
  case (Cons c cs)
  from Cons.prems obtain cid where cid: "claim_id c = Some cid"
    by (cases "claim_id c") auto
  from Cons.prems cid obtain rq c1 ev where
    build: "build_retrieval_query C gw calls query (claim_text c) intent = (Inr rq, c1)"
    and found: "search float_sub coll rq (max_retrieved_docs cfg) (similarity_threshold cfg) = Inr ev"
    and rec: "retrieve_loop C cfg float_sub coll gw clock query intent (i + 1)
            (AList.update cid \<lparr>ev_claim = claim_text c, retrieval_query = rq, evidence = ev,
                                retrieval_timestamp = clock i\<rparr> emap) c1 cs = (Inr m, calls')"
    by (auto split: prod.splits sum.splits)
  let ?entry = "\<lparr>ev_claim = claim_text c, retrieval_query = rq, evidence = ev,
                  retrieval_timestamp = clock i\<rparr>"
  let ?emap' = "AList.update cid ?entry emap"
  from Cons.IH [OF rec] have frame:
    "\<forall>k. Some k \<notin> claim_id ` set cs \<longrightarrow> map_of m k = map_of ?emap' k"
    and entries: "\<forall>n < length cs. \<forall>cid.
      claim_id (cs ! n) = Some cid \<and> Some cid \<notin> claim_id ` set (drop (Suc n) cs) \<longrightarrow>
      (\<exists>info calls_n calls_n'.
         map_of m cid = Some info \<and> ev_claim info = claim_text (cs ! n) \<and>
         retrieval_timestamp info = clock (i + 1 + n) \<and>
         build_retrieval_query C gw calls_n query (claim_text (cs ! n)) intent =
           (Inr (retrieval_query info), calls_n') \<and>
         search float_sub coll (retrieval_query info) (max_retrieved_docs cfg)
           (similarity_threshold cfg) = Inr (evidence info))"
    by simp_all
  have 1: "\<forall>k. Some k \<notin> claim_id ` set (c # cs) \<longrightarrow> map_of m k = map_of emap k"
  proof (intro allI impI)
    fix k
    assume "Some k \<notin> claim_id ` set (c # cs)"
    then have "k \<noteq> cid" and "Some k \<notin> claim_id ` set cs"
      using cid by auto
    then show "map_of m k = map_of emap k"
      using frame by (simp add: update_conv')
  qed
  have 2: "\<forall>n < length (c # cs). \<forall>k.
      claim_id ((c # cs) ! n) = Some k \<and> Some k \<notin> claim_id ` set (drop (Suc n) (c # cs)) \<longrightarrow>
      (\<exists>info calls_n calls_n'.
         map_of m k = Some info \<and> ev_claim info = claim_text ((c # cs) ! n) \<and>
         retrieval_timestamp info = clock (i + n) \<and>
         build_retrieval_query C gw calls_n query (claim_text ((c # cs) ! n)) intent =
           (Inr (retrieval_query info), calls_n') \<and>
         search float_sub coll (retrieval_query info) (max_retrieved_docs cfg)
           (similarity_threshold cfg) = Inr (evidence info))"
  proof (intro allI impI)
    fix n k
    assume n: "n < length (c # cs)"
      and last: "claim_id ((c # cs) ! n) = Some k \<and>
                 Some k \<notin> claim_id ` set (drop (Suc n) (c # cs))"
    show "\<exists>info calls_n calls_n'.
         map_of m k = Some info \<and> ev_claim info = claim_text ((c # cs) ! n) \<and>
         retrieval_timestamp info = clock (i + n) \<and>
         build_retrieval_query C gw calls_n query (claim_text ((c # cs) ! n)) intent =
           (Inr (retrieval_query info), calls_n') \<and>
         search float_sub coll (retrieval_query info) (max_retrieved_docs cfg)
           (similarity_threshold cfg) = Inr (evidence info)"
    proof (cases n)
      case 0
      with last cid have k: "k = cid" and "Some cid \<notin> claim_id ` set cs"
        by simp_all
      then have "map_of m cid = Some ?entry"
        using frame by (simp add: update_conv')
      then show ?thesis
        using 0 k build found by auto
    next
      case (Suc n')
      with n last have "n' < length cs"
        and "claim_id (cs ! n') = Some k \<and> Some k \<notin> claim_id ` set (drop (Suc n') cs)"
        by simp_all
      with entries obtain info calls_n calls_n' where
        "map_of m k = Some info" "ev_claim info = claim_text (cs ! n')"
        "retrieval_timestamp info = clock (i + 1 + n')"
        "build_retrieval_query C gw calls_n query (claim_text (cs ! n')) intent =
           (Inr (retrieval_query info), calls_n')"
        "search float_sub coll (retrieval_query info) (max_retrieved_docs cfg)
           (similarity_threshold cfg) = Inr (evidence info)"
        by blast
      then show ?thesis
        using Suc by auto
    qed
  qed
  from 1 2 show ?case by blast
qed

text \<open>
  C5, as stated, has the claim ids unique within a run, so that no claim is dropped or
  duplicated between extraction and verification. The ids are the numbers the gateway
  wrote on the claim lines: for a response whose two lines carry the same number,
  extraction returns two claims with the id \<open>claim_1\<close>, and the evidence map of the
  retrieval stage has one entry, that of the second claim.
\<close>

theorem evidence_map_repeated_id_counterexample:
  "fst (extract_claims repeating_gateway [] (u ''The sky is blue. Grass is green.'')) =
     Inr [\<lparr>claim_id = Some (u ''claim_1''), claim_text = u ''The sky is blue'',
           confidence = 9 / 10, atomic = True, original_position = Some 0\<rparr>,
          \<lparr>claim_id = Some (u ''claim_1''), claim_text = u ''Grass is green'',
           confidence = 9 / 10, atomic = True, original_position = Some 17\<rparr>] \<and>
   fst (retrieve_evidence_for_claims (init_intent_classifier demo_config) demo_retrieval_config
          rational_sub empty_collection repeating_gateway epoch_clock [] (u ''What colour is the sky?'')
          [\<lparr>claim_id = Some (u ''claim_1''), claim_text = u ''The sky is blue'',
            confidence = 9 / 10, atomic = True, original_position = Some 0\<rparr>,
           \<lparr>claim_id = Some (u ''claim_1''), claim_text = u ''Grass is green'',
            confidence = 9 / 10, atomic = True, original_position = Some 17\<rparr>]
          factual_query) =
     Inr [(u ''claim_1'',
           \<lparr>ev_claim = u ''Grass is green'',
            retrieval_query =
              [25214, 21040, 20851, 20110, 91] @ u ''What colour is the sky?'' @
              [93, 30340, 20855, 20307, 20107, 23454] @
              [32, 20855, 20307, 39564, 35777, 22768, 26126, 58, 32] @ u ''Grass is green'',
            evidence = [], retrieval_timestamp = u ''1970-01-01T00:00:00''\<rparr>)]"
proof -
  have response: "repeating_gateway [] (ClaimExtractionPrompt (u ''The sky is blue. Grass is green.'')) =
      ok_response repeated_claim_lines 30 16 (u ''m'') (u ''stop'')"
    by (simp add: repeating_gateway_def fixed_gateway_def)
  have no_error: "\<not> truthy (dict_get (ok_response repeated_claim_lines 30 16 (u ''m'') (u ''stop''))
      (u ''error''))"
    by (simp add: ok_response_def dict_get_def u_def)
  have response_text: "dict_item (ok_response repeated_claim_lines 30 16 (u ''m'') (u ''stop''))
      (u ''text'') = Inr (PStr repeated_claim_lines)"
    by (simp add: ok_response_def dict_item_def)
  have long: "u ''The sky is blue. Grass is green.'' \<noteq> []"
    "\<not> length (strip (u ''The sky is blue. Grass is green.'')) < 10"
    by (simp_all add: strip_def is_space_def u_def)
  have stripped: "strip repeated_claim_lines = repeated_claim_lines"
    by (simp add: repeated_claim_lines_def strip_def is_space_def u_def)
  have no_newline: "10 \<notin> set (u ''[CLAIM_1]: The sky is blue'')"
    "10 \<notin> set (u ''[CLAIM_1]: Grass is green'')"
    by (simp_all add: u_def)
  have "split_char 10 repeated_claim_lines =
      [u ''[CLAIM_1]: The sky is blue'', u ''[CLAIM_1]: Grass is green'']"
    unfolding repeated_claim_lines_def
    using no_newline by (simp add: split_char_append split_char_no_sep)
  then have lines: "split_char 10 (strip repeated_claim_lines) =
      [u ''[CLAIM_1]: The sky is blue'', u ''[CLAIM_1]: Grass is green'']"
    by (simp only: stripped)
  have digit: "is_digit 49" "\<not> is_digit 93" "digit_value 49 = Some 1"
    by (simp_all add: is_digit_def digit_value_def decimal_zeros_def)
  have matched:
    "match_claim_line (u ''[CLAIM_1]: The sky is blue'') = Some ([49], u ''The sky is blue'')"
    "match_claim_line (u ''[CLAIM_1]: Grass is green'') = Some ([49], u ''Grass is green'')"
    using digit by (simp_all add: match_claim_line_def match_ws_then_any_def is_space_def u_def)
  have trimmed:
    "strip (u ''[CLAIM_1]: The sky is blue'') = u ''[CLAIM_1]: The sky is blue''"
    "strip (u ''[CLAIM_1]: Grass is green'') = u ''[CLAIM_1]: Grass is green''"
    "strip (u ''The sky is blue'') = u ''The sky is blue''"
    "strip (u ''Grass is green'') = u ''Grass is green''"
    by (simp_all add: strip_def is_space_def u_def)
  have nonempty: "u ''[CLAIM_1]: The sky is blue'' \<noteq> []" "u ''[CLAIM_1]: Grass is green'' \<noteq> []"
    by (simp_all add: u_def)
  have position:
    "estimate_position (u ''The sky is blue'') (u ''The sky is blue. Grass is green.'') = 0"
    "estimate_position (u ''Grass is green'') (u ''The sky is blue. Grass is green.'') = 17"
    by (simp_all add: estimate_position_def u_def)
  have number: "int_of_digits [49] = Inr 1"
    using digit by (simp add: int_of_digits_def max_str_digits_def)
  have ident: "u ''claim_'' @ str_of_nat (Suc 0) = u ''claim_1''"
    by (simp add: str_of_nat.simps u_def)
  have parsed: "parse_lines (u ''The sky is blue. Grass is green.'')
      [u ''[CLAIM_1]: The sky is blue'', u ''[CLAIM_1]: Grass is green''] =
     Inr [\<lparr>claim_id = Some (u ''claim_1''), claim_text = u ''The sky is blue'',
           confidence = 9 / 10, atomic = True, original_position = Some 0\<rparr>,
          \<lparr>claim_id = Some (u ''claim_1''), claim_text = u ''Grass is green'',
           confidence = 9 / 10, atomic = True, original_position = Some 17\<rparr>]"
    by (simp add: trimmed nonempty matched position number ident)
  have extraction:
    "fst (extract_claims repeating_gateway [] (u ''The sky is blue. Grass is green.'')) =
     Inr [\<lparr>claim_id = Some (u ''claim_1''), claim_text = u ''The sky is blue'',
           confidence = 9 / 10, atomic = True, original_position = Some 0\<rparr>,
          \<lparr>claim_id = Some (u ''claim_1''), claim_text = u ''Grass is green'',
           confidence = 9 / 10, atomic = True, original_position = Some 17\<rparr>]"
    by (simp add: extract_claims_def call_with_retry_def response no_error response_text long
        parse_claims_response_def lines parsed del: parse_lines.simps)
  have retrieval:
    "fst (retrieve_evidence_for_claims (init_intent_classifier demo_config) demo_retrieval_config
          rational_sub empty_collection repeating_gateway epoch_clock [] (u ''What colour is the sky?'')
          [\<lparr>claim_id = Some (u ''claim_1''), claim_text = u ''The sky is blue'',
            confidence = 9 / 10, atomic = True, original_position = Some 0\<rparr>,
           \<lparr>claim_id = Some (u ''claim_1''), claim_text = u ''Grass is green'',
            confidence = 9 / 10, atomic = True, original_position = Some 17\<rparr>]
          factual_query) =
     Inr [(u ''claim_1'',
           \<lparr>ev_claim = u ''Grass is green'',
            retrieval_query =
              [25214, 21040, 20851, 20110, 91] @ u ''What colour is the sky?'' @
              [93, 30340, 20855, 20307, 20107, 23454] @
              [32, 20855, 20307, 39564, 35777, 22768, 26126, 58, 32] @ u ''Grass is green'',
            evidence = [], retrieval_timestamp = u ''1970-01-01T00:00:00''\<rparr>)]"
    by (simp add: retrieve_evidence_for_claims_def build_retrieval_query_def
        generate_retrieval_prompt_def template_for_def init_intent_classifier_def demo_config_def
        builtin_templates_def format_template_def search_def empty_collection_def
        demo_retrieval_config_def epoch_clock_def factual_query_def comparison_query_def)
  show ?thesis
    using extraction retrieval by simp
qed

text \<open>
  C5, amended: for every run whose retrieval stage completes, every extracted claim has an
  id, and the keys of the evidence map are exactly the ids of the extracted claims, each
  key once, so that no claim id is dropped. The ids are not made unique: the entry of an
  id is that of the last claim that carries it (the text of that claim, the retrieval
  query built for it, the evidence retrieved for that query and the timestamp of its turn
  in the loop), so that claims sharing an id share one entry. When the ids of the
  extracted claims are pairwise distinct, the map has exactly one entry for each claim.
\<close>

theorem evidence_map_keys:
  "retrieve_evidence_for_claims C cfg float_sub coll gw clock calls query cs intent =
     (Inr emap, calls') \<Longrightarrow>
   (\<forall>c \<in> set cs. claim_id c \<noteq> None) \<and>
   fst ` set emap = {cid. Some cid \<in> claim_id ` set cs} \<and>
   distinct (map fst emap) \<and>
   (\<forall>n < length cs. \<forall>cid.
      claim_id (cs ! n) = Some cid \<and> Some cid \<notin> claim_id ` set (drop (Suc n) cs) \<longrightarrow>
      (\<exists>info calls_n calls_n'.
         map_of emap cid = Some info \<and> ev_claim info = claim_text (cs ! n) \<and>
         retrieval_timestamp info = clock n \<and>
         build_retrieval_query C gw calls_n query (claim_text (cs ! n)) intent =
           (Inr (retrieval_query info), calls_n') \<and>
         search float_sub coll (retrieval_query info) (max_retrieved_docs cfg)
           (similarity_threshold cfg) = Inr (evidence info))) \<and>
   (distinct (map claim_id cs) \<longrightarrow> length emap = length cs)"
proof -
  assume run: "retrieve_evidence_for_claims C cfg float_sub coll gw clock calls query cs intent =
     (Inr emap, calls')"
  then have loop: "retrieve_loop C cfg float_sub coll gw clock query intent 0 [] calls cs =
     (Inr emap, calls')"
    by (simp add: retrieve_evidence_for_claims_def)
  from retrieve_loop_keys [OF loop]
  have keys: "\<forall>c \<in> set cs. claim_id c \<noteq> None"
    "fst ` set emap = {cid. Some cid \<in> claim_id ` set cs}"
    "distinct (map fst emap)"
    "distinct (map claim_id cs) \<longrightarrow> length emap = length cs"
    by simp_all
  from retrieve_loop_entries [OF loop]
  have entries: "\<forall>n < length cs. \<forall>cid.
      claim_id (cs ! n) = Some cid \<and> Some cid \<notin> claim_id ` set (drop (Suc n) cs) \<longrightarrow>
      (\<exists>info calls_n calls_n'.
         map_of emap cid = Some info \<and> ev_claim info = claim_text (cs ! n) \<and>
         retrieval_timestamp info = clock n \<and>
         build_retrieval_query C gw calls_n query (claim_text (cs ! n)) intent =
           (Inr (retrieval_query info), calls_n') \<and>
         search float_sub coll (retrieval_query info) (max_retrieved_docs cfg)
           (similarity_threshold cfg) = Inr (evidence info))"
    by simp
  from keys entries show ?thesis
    by blast
qed

theorem evidence_map_keys_witness:
  "retrieve_evidence_for_claims (init_intent_classifier demo_config) demo_retrieval_config
     rational_sub empty_collection failing_gateway counting_clock [] (u ''What colour is the sky?'')
     repeated_id_claims factual_query =
     (Inr [(u ''claim_1'', colour_entry (u ''Snow is white'') (u ''1970-01-01T00:00:02'')),
           (u ''claim_2'', colour_entry (u ''Grass is green'') (u ''1970-01-01T00:00:01''))], []) \<and>
   map claim_id repeated_id_claims =
     [Some (u ''claim_1''), Some (u ''claim_2''), Some (u ''claim_1'')] \<and>
   claim_text (repeated_id_claims ! 2) = u ''Snow is white'' \<and>
   counting_clock 2 = u ''1970-01-01T00:00:02'' \<and>
   (\<exists>info. map_of [(u ''claim_1'', colour_entry (u ''Snow is white'') (u ''1970-01-01T00:00:02'')),
                    (u ''claim_2'', colour_entry (u ''Grass is green'') (u ''1970-01-01T00:00:01''))]
              (u ''claim_1'') = Some info \<and>
           ev_claim info = u ''Snow is white'' \<and>
           retrieval_timestamp info = u ''1970-01-01T00:00:02'') \<and>
   retrieve_evidence_for_claims (init_intent_classifier demo_config) demo_retrieval_config
     rational_sub empty_collection failing_gateway counting_clock [] (u ''What colour is the sky?'')
     distinct_id_claims factual_query =
     (Inr [(u ''claim_1'', colour_entry (u ''The sky is blue'') (u ''1970-01-01T00:00:00'')),
           (u ''claim_2'', colour_entry (u ''Grass is green'') (u ''1970-01-01T00:00:01''))], []) \<and>
   distinct (map claim_id distinct_id_claims) \<and>
   length [(u ''claim_1'', colour_entry (u ''The sky is blue'') (u ''1970-01-01T00:00:00'')),
           (u ''claim_2'', colour_entry (u ''Grass is green'') (u ''1970-01-01T00:00:01''))] =
     length distinct_id_claims"
proof -
  let ?m3 = "[(u ''claim_1'', colour_entry (u ''Snow is white'') (u ''1970-01-01T00:00:02'')),
              (u ''claim_2'', colour_entry (u ''Grass is green'') (u ''1970-01-01T00:00:01''))]"
  let ?m2 = "[(u ''claim_1'', colour_entry (u ''The sky is blue'') (u ''1970-01-01T00:00:00'')),
              (u ''claim_2'', colour_entry (u ''Grass is green'') (u ''1970-01-01T00:00:01''))]"
  have run3: "retrieve_evidence_for_claims (init_intent_classifier demo_config)
     demo_retrieval_config rational_sub empty_collection failing_gateway counting_clock []
     (u ''What colour is the sky?'') repeated_id_claims factual_query = (Inr ?m3, [])"
    by (simp add: retrieve_evidence_for_claims_def repeated_id_claims_def sky_claim_def
        grass_claim_def snow_claim_def colour_entry_def build_retrieval_query_def
        generate_retrieval_prompt_def template_for_def init_intent_classifier_def demo_config_def
        builtin_templates_def format_template_def search_def empty_collection_def
        demo_retrieval_config_def counting_clock_def str_of_nat.simps factual_query_def
        comparison_query_def u_def)
  have run2: "retrieve_evidence_for_claims (init_intent_classifier demo_config)
     demo_retrieval_config rational_sub empty_collection failing_gateway counting_clock []
     (u ''What colour is the sky?'') distinct_id_claims factual_query = (Inr ?m2, [])"
    by (simp add: retrieve_evidence_for_claims_def distinct_id_claims_def sky_claim_def
        grass_claim_def colour_entry_def build_retrieval_query_def
        generate_retrieval_prompt_def template_for_def init_intent_classifier_def demo_config_def
        builtin_templates_def format_template_def search_def empty_collection_def
        demo_retrieval_config_def counting_clock_def str_of_nat.simps factual_query_def
        comparison_query_def u_def)
  have ids: "map claim_id repeated_id_claims =
      [Some (u ''claim_1''), Some (u ''claim_2''), Some (u ''claim_1'')]"
    by (simp add: repeated_id_claims_def sky_claim_def grass_claim_def snow_claim_def)
  have third: "claim_text (repeated_id_claims ! 2) = u ''Snow is white''"
    "claim_id (repeated_id_claims ! 2) = Some (u ''claim_1'')"
    "Some (u ''claim_1'') \<notin> claim_id ` set (drop (Suc 2) repeated_id_claims)"
    "2 < length repeated_id_claims"
    by (simp_all add: repeated_id_claims_def snow_claim_def)
  have reading: "counting_clock 2 = u ''1970-01-01T00:00:02''"
    by (simp add: counting_clock_def str_of_nat.simps u_def)
  have different: "distinct (map claim_id distinct_id_claims)"
    by (simp add: distinct_id_claims_def sky_claim_def grass_claim_def u_def)
  from evidence_map_keys [OF run3] third
  have "\<exists>info calls_n calls_n'.
         map_of ?m3 (u ''claim_1'') = Some info \<and>
         ev_claim info = claim_text (repeated_id_claims ! 2) \<and>
         retrieval_timestamp info = counting_clock 2 \<and>
         build_retrieval_query (init_intent_classifier demo_config) failing_gateway calls_n
           (u ''What colour is the sky?'') (claim_text (repeated_id_claims ! 2)) factual_query =
           (Inr (retrieval_query info), calls_n') \<and>
         search rational_sub empty_collection (retrieval_query info)
           (max_retrieved_docs demo_retrieval_config) (similarity_threshold demo_retrieval_config) =
           Inr (evidence info)"
    by blast
  then have entry: "\<exists>info. map_of ?m3 (u ''claim_1'') = Some info \<and>
           ev_claim info = u ''Snow is white'' \<and>
           retrieval_timestamp info = u ''1970-01-01T00:00:02''"
    unfolding third reading by blast
  from evidence_map_keys [OF run2] different
  have size: "length ?m2 = length distinct_id_claims"
    by blast
  from run3 ids third(1) reading entry run2 different size show ?thesis
    by blast
qed

section \<open>Properties of the pipeline controller\<close>

lemma process_query_error_steps:
  "process_query (stages_failing_at 0) q ctx = Failed q (Raised (u ''stage failed'')) (u ''initialization'')"
  "process_query (stages_failing_at 1) q ctx =
     Failed q (Raised (u ''stage failed'')) (u ''initial_answer_generation'')"
  "process_query (stages_failing_at 2) q ctx =
     Failed q (Raised (u ''stage failed'')) (u ''intent_classification'')"
  "process_query (stages_failing_at 4) q ctx =
     Failed q (Raised (u ''stage failed'')) (u ''evidence_retrieval'')"
  "process_query (stages_failing_at 5) q ctx =
     Failed q (Raised (u ''stage failed'')) (u ''claim_verification'')"
  "process_query (stages_failing_at 6) q ctx =
     Failed q (Raised (u ''stage failed'')) (u ''answer_correction'')"
  "process_query (stages_failing_at 7) q ctx =
     Failed q (Raised (u ''stage failed'')) (u ''hallucination_detection'')"
  by (simp_all add: process_query_def stages_failing_at_def identify_error_step_def)

text \<open>
  C4: when a stage raises, \<open>process_query\<close> returns a failure that holds the exception
  and should name the stage that was executing. \<open>_identify_error_step\<close> returns the last
  key of \<open>execution_steps\<close>, and a stage is entered there only after it has returned:
  when the evidence-retrieval stage raises, the stage named is \<open>claim_extraction\<close>, the
  last one that completed.
\<close>

theorem process_query_error_step_is_previous_stage:
  "process_query (stages_failing_at 3) (u ''What is Python?'') None =
     Failed (u ''What is Python?'') (Raised (u ''stage failed'')) (u ''claim_extraction'')"
  by (simp add: process_query_def stages_failing_at_def identify_error_step_def)

end
